theory Spec2Isabelle
  imports Complex_Main
begin

section \<open>Python values shared by the client and the manager\<close>

text \<open>
  Exceptions are values. Every \<^verbatim>\<open>raise\<close>, failed \<^verbatim>\<open>assert\<close>, missing dictionary
  key, out-of-range list index and missing attribute of the source is a branch of the
  model that returns one of these. \<^verbatim>\<open>raise "some string"\<close> (client.py line 74,
  manager.py lines 248 and 256) is a \<^verbatim>\<open>TypeError\<close> in Python 3, because a string is
  not an exception.
\<close>

datatype py_error =
  RuntimeError | TypeError | KeyError | IndexError | AssertionError | AttributeError

text \<open>
  \<^verbatim>\<open>torch.device\<close>: a device type and an optional index. \<^verbatim>\<open>torch.device('cpu')\<close>
  has no index, \<^verbatim>\<open>torch.device('cuda:0')\<close> has index 0; two devices are equal when
  both parts are.
\<close>

datatype device = Device (dev_type: string) (dev_index: "nat option")

definition cpu_device :: device where
  "cpu_device = Device ''cpu'' None"

definition cuda0_device :: device where
  "cuda0_device = Device ''cuda'' (Some 0)"

section \<open>Tensor records, chunks and the chunk list\<close>

text \<open>
  Modelled from the spec: \<^verbatim>\<open>const.py\<close>, \<^verbatim>\<open>chunk.py\<close> and \<^verbatim>\<open>chunk_list.py\<close> are
  imported by client.py but are not among the sources. The statuses are those of the
  data model (section 3 of the spec), a tensor record carries its id, its offset and
  extent in the chunk and its status, and a chunk carries its fixed capacity, its one
  device, its records and the time of its last touch.
\<close>

datatype PSTensorStatus = UNINIT | HOLD | COMPUTE | FREE

datatype PSChunkStatus = CHUNK_COMPUTE | CHUNK_HOLD | CHUNK_FREE

datatype AccessType = DATA | GRAD

record TensorInfo =
  tensor_id :: "int option"
  start :: int
  size :: int
  status :: PSTensorStatus

record Chunk =
  capacity :: int
  device :: device
  tensor_info_list :: "TensorInfo list"
  timestamp :: nat

text \<open>
  Modelled from the spec: the aggregate status of a chunk is COMPUTE if any member is
  COMPUTE, else HOLD if any member is HOLD, else FREE.
\<close>

definition get_status :: "Chunk \<Rightarrow> PSChunkStatus" where
  "get_status c =
     (if list_ex (\<lambda>i. status i = COMPUTE) (tensor_info_list c) then CHUNK_COMPUTE
      else if list_ex (\<lambda>i. status i = HOLD) (tensor_info_list c) then CHUNK_HOLD
      else CHUNK_FREE)"

text \<open>
  Modelled from the spec: \<^verbatim>\<open>tensor_info_list.set_status(tensor_id, status)\<close> stamps
  the record of that tensor id; the other records are left as they are.
\<close>

definition set_status :: "int \<Rightarrow> PSTensorStatus \<Rightarrow> TensorInfo list \<Rightarrow> TensorInfo list" where
  "set_status tid st infos =
     map (\<lambda>i. if tensor_id i = Some tid then i\<lparr>status := st\<rparr> else i) infos"

text \<open>The status recorded for a tensor id in a list of records (the first record of that id).\<close>

fun status_of :: "int \<Rightarrow> TensorInfo list \<Rightarrow> PSTensorStatus option" where
  "status_of tid [] = None"
| "status_of tid (i # infos) =
     (if tensor_id i = Some tid then Some (status i) else status_of tid infos)"

text \<open>
  Modelled from the spec: \<^verbatim>\<open>touch()\<close> stamps the chunk's last-access time. The time
  read by the call is an argument of the model.
\<close>

definition touch :: "nat \<Rightarrow> Chunk \<Rightarrow> Chunk" where
  "touch now c = c\<lparr>timestamp := now\<rparr>"

text \<open>
  Modelled from the spec: \<^verbatim>\<open>get_chunk_memory_used(device)\<close> is the sum of the
  capacities of the chunks currently resident on the device.
\<close>

definition get_chunk_memory_used :: "Chunk list \<Rightarrow> device \<Rightarrow> int" where
  "get_chunk_memory_used cs d = sum_list (map capacity (filter (\<lambda>c. device c = d) cs))"

text \<open>
  Modelled from the spec: \<^verbatim>\<open>make_room(need_size, device)\<close> only selects victims. The
  candidates are the chunks resident on the device whose aggregate status is not
  COMPUTE, least recently touched first; they are taken in that order until the freed
  capacity reaches the need. When the candidates are used up before that, the call
  fails (a capacity failure, propagated to the caller). The need is an integer in the
  client and a float in the manager, so its type is left open.
\<close>

fun select_victims :: "Chunk list \<Rightarrow> 'a::linordered_idom \<Rightarrow> nat list \<Rightarrow> nat list option" where
  "select_victims cs need [] = (if need \<le> 0 then Some [] else None)"
| "select_victims cs need (i # is) =
     (if need \<le> 0 then Some []
      else map_option ((#) i) (select_victims cs (need - of_int (capacity (cs ! i))) is))"

definition candidates :: "Chunk list \<Rightarrow> device \<Rightarrow> nat list" where
  "candidates cs d =
     sort_key (\<lambda>i. timestamp (cs ! i))
       (filter (\<lambda>i. device (cs ! i) = d \<and> get_status (cs ! i) \<noteq> CHUNK_COMPUTE)
          [0 ..< length cs])"

definition make_room :: "Chunk list \<Rightarrow> 'a::linordered_idom \<Rightarrow> device \<Rightarrow> py_error + nat list" where
  "make_room cs need d =
     (case select_victims cs need (candidates cs d) of
        None \<Rightarrow> Inl RuntimeError
      | Some moved \<Rightarrow> Inr moved)"

section \<open>The metronome\<close>

text \<open>
  Modelled from the spec: \<^verbatim>\<open>metronome.py\<close> is imported by manager.py but is not among
  the sources. The metronome holds the moment counter, the warmup flag and the number
  of moments of one iteration. \<^verbatim>\<open>moment()\<close> returns the counter, \<^verbatim>\<open>next_moment()\<close>
  the index that follows it, wrapping to 0 at the end of the iteration, and
  \<^verbatim>\<open>tiktac()\<close> advances the counter.
\<close>

record Metronome =
  moment :: nat
  is_warmup :: bool
  total_moment :: nat

definition next_moment :: "Metronome \<Rightarrow> nat" where
  "next_moment m = (if Suc (moment m) < total_moment m then Suc (moment m) else 0)"

definition metronome_tiktac :: "Metronome \<Rightarrow> Metronome" where
  "metronome_tiktac m = m\<lparr>moment := moment m + 1\<rparr>"

section \<open>PatrickStarManager (manager.py)\<close>

datatype TrainingStage = UNSTART | WARMUP | FWD | BWD | ADAM

text \<open>
  The fields of \<^verbatim>\<open>PatrickStarManager\<close> that \<^verbatim>\<open>tiktac\<close> and \<^verbatim>\<open>available_chunk_mem\<close>
  read and write, without the leading underscore of the private ones; the private
  \<^verbatim>\<open>_default_chunk_size\<close> is \<open>mgr_default_chunk_size\<close>, since the client of
  client.py has a public field of that name. The two overall budgets and the warmup
  ratio are Python floats (a total times a ratio); they are reals here, so rounding is
  not modelled. The chunk totals and the recorded samples are Python integers.
\<close>

record PatrickStarManager =
  gpu_chunk_used_mem :: int
  cpu_chunk_used_mem :: int
  warmup_gpu_chunk_mem_ratio :: real
  always_warmup :: bool
  overall_gpu_mem :: real
  overall_cpu_mem :: real
  cpu_used_list :: "int list"
  cpu_chunk_used_list :: "int list"
  cpu_sys_used_list :: "int list"
  gpu_used_list :: "int list"
  gpu_chunk_used_list :: "int list"
  gpu_sys_used_list :: "int list"
  start_training :: bool
  training_stage :: TrainingStage
  mgr_default_chunk_size :: int

text \<open>
  \<^verbatim>\<open>available_chunk_mem(metronome, device_type)\<close>, manager.py lines 275 to 336. The
  device type is a string. \<^verbatim>\<open>get_world_size()\<close> is read from the process group and
  is an argument here. Reading the recorded list at an index beyond its end raises
  \<^verbatim>\<open>IndexError\<close>; the next moment is read first. A path that reaches the end of the
  function without a \<^verbatim>\<open>return\<close> (a device type other than cpu and cuda, or a stage
  other than ADAM, FWD and BWD after warmup) returns Python's \<^verbatim>\<open>None\<close>.
\<close>

definition available_chunk_mem ::
  "int \<Rightarrow> PatrickStarManager \<Rightarrow> Metronome \<Rightarrow> string \<Rightarrow> py_error + real option" where
  "available_chunk_mem world_size self metronome device_type =
     (if device_type = ''cpu'' then
        (if is_warmup metronome \<or> \<not> start_training self
         then Inr (Some (overall_cpu_mem self))
         else Inr (Some (overall_cpu_mem self)))
      else if device_type = ''cuda'' then
        (if always_warmup self \<or> is_warmup metronome \<or> \<not> start_training self then
           (if training_stage self = ADAM
            then Inr (Some (overall_gpu_mem self - of_int (4 * mgr_default_chunk_size self * 4)))
            else Inr (Some (overall_gpu_mem self * warmup_gpu_chunk_mem_ratio self)))
         else
           (if training_stage self = ADAM
            then Inr (Some (overall_gpu_mem self - of_int (4 * mgr_default_chunk_size self * 4)))
            else if training_stage self = FWD \<or> training_stage self = BWD then
              (let next_mom = next_moment metronome;
                   cur_mom = moment metronome
               in if length (gpu_sys_used_list self) \<le> next_mom then Inl IndexError
                  else if length (gpu_sys_used_list self) \<le> cur_mom then Inl IndexError
                  else
                    (let next_mom_ava_mem =
                           overall_gpu_mem self - of_int (gpu_sys_used_list self ! next_mom);
                         cur_mom_ava_mem =
                           overall_gpu_mem self - of_int (gpu_sys_used_list self ! cur_mom)
                     in Inr (Some (min next_mom_ava_mem cur_mom_ava_mem
                                   - of_int (world_size * 2 * mgr_default_chunk_size self)))))
            else Inr None))
      else Inr None)"

text \<open>
  The client as \<^verbatim>\<open>tiktac\<close> reads it: \<^verbatim>\<open>client.local_rank\<close>, \<^verbatim>\<open>client.metronome\<close>
  and \<^verbatim>\<open>client.chunk_list\<close>.
\<close>

record client =
  client_local_rank :: nat
  client_metronome :: Metronome
  client_chunk_list :: "Chunk list"

text \<open>
  What one call of \<^verbatim>\<open>tiktac\<close> reads from outside the manager:
  \<^verbatim>\<open>torch.distributed.is_initialized()\<close>, \<^verbatim>\<open>get_sys_memory_used(device)\<close> and
  \<^verbatim>\<open>max_mem_usage_period()\<close>.
\<close>

record readings =
  dist_is_initialized :: bool
  get_sys_memory_used :: "device \<Rightarrow> int"
  max_mem_usage_period :: int

text \<open>Lines 176 to 180: the accelerator of this rank, \<^verbatim>\<open>torch.device(f"cuda:{rank}")\<close>.\<close>

definition tiktac_gpu_device :: "readings \<Rightarrow> client \<Rightarrow> device" where
  "tiktac_gpu_device env c =
     (let rank = (if dist_is_initialized env then client_local_rank c else 0)
      in Device ''cuda'' (Some rank))"

text \<open>
  \<^verbatim>\<open>tiktac(client)\<close>, manager.py lines 174 to 240. The result is the error raised, if
  any, with the manager and the client as the call leaves them. The block guarded by
  \<^verbatim>\<open>profiler.started()\<close> (lines 184 to 197) appends to the profiler's own lists only
  and is left out. During warmup the three lists of each device class grow by one
  entry, then the assertion of line 216 is checked. After warmup the recorded list is
  read at the next moment (\<^verbatim>\<open>IndexError\<close> beyond its end), and \<^verbatim>\<open>make_room\<close> is called
  when the forecast is below the chunk memory resident on the accelerator; its result
  is dropped, its failure propagates. The metronome is advanced last (line 240).
\<close>

definition tiktac ::
  "readings \<Rightarrow> PatrickStarManager \<Rightarrow> client \<Rightarrow> (py_error + unit) \<times> PatrickStarManager \<times> client" where
  "tiktac env self c =
     (let gpu_device = tiktac_gpu_device env c;
          cpu_device = Device ''cpu'' (Some 0);
          gpu_used = get_sys_memory_used env gpu_device
      in
      if is_warmup (client_metronome c) then
        (let max_mem_period = max_mem_usage_period env;
             gpu_used = max max_mem_period gpu_used;
             self1 = self\<lparr>gpu_used_list := gpu_used_list self @ [gpu_used],
                          gpu_chunk_used_list := gpu_chunk_used_list self @ [gpu_chunk_used_mem self],
                          gpu_sys_used_list :=
                            gpu_sys_used_list self @ [gpu_used - gpu_chunk_used_mem self]\<rparr>;
             cpu_used = get_sys_memory_used env cpu_device;
             self2 = self1\<lparr>cpu_used_list := cpu_used_list self1 @ [cpu_used],
                           cpu_chunk_used_list := cpu_chunk_used_list self1 @ [cpu_chunk_used_mem self1],
                           cpu_sys_used_list :=
                             cpu_sys_used_list self1 @ [cpu_used - cpu_chunk_used_mem self1]\<rparr>;
             cur_mom = moment (client_metronome c)
         in if int (length (gpu_sys_used_list self2)) - 1 = int cur_mom
            then (Inr (), self2, c\<lparr>client_metronome := metronome_tiktac (client_metronome c)\<rparr>)
            else (Inl AssertionError, self2, c))
      else
        (let next_mom = next_moment (client_metronome c);
             cur_mom = moment (client_metronome c)
         in if length (gpu_sys_used_list self) \<le> next_mom then (Inl IndexError, self, c)
            else
              (let gpu_next_mom_ava_chunk_mem =
                     overall_gpu_mem self - of_int (gpu_sys_used_list self ! next_mom);
                   gpu_cur_mom_used_chunk_mem =
                     get_chunk_memory_used (client_chunk_list c) gpu_device
               in if gpu_next_mom_ava_chunk_mem < of_int gpu_cur_mom_used_chunk_mem then
                    (let offload_size =
                           of_int gpu_cur_mom_used_chunk_mem - gpu_next_mom_ava_chunk_mem
                     in case make_room (client_chunk_list c) offload_size gpu_device of
                          Inl e \<Rightarrow> (Inl e, self, c)
                        | Inr moved \<Rightarrow>
                            (Inr (), self,
                             c\<lparr>client_metronome := metronome_tiktac (client_metronome c)\<rparr>))
                  else (Inr (), self,
                        c\<lparr>client_metronome := metronome_tiktac (client_metronome c)\<rparr>))))"

text \<open>
  \<^verbatim>\<open>tiktac\<close> called once per moment: the readings of the successive calls are a list,
  and the run stops at the first call that raises.
\<close>

fun tiktac_run ::
  "readings list \<Rightarrow> PatrickStarManager \<Rightarrow> client \<Rightarrow> (py_error + unit) \<times> PatrickStarManager \<times> client" where
  "tiktac_run [] self c = (Inr (), self, c)"
| "tiktac_run (env # envs) self c =
     (case tiktac env self c of
        (Inl e, self', c') \<Rightarrow> (Inl e, self', c')
      | (Inr u, self', c') \<Rightarrow> tiktac_run envs self' c')"

section \<open>HybridPSClient (client.py)\<close>

text \<open>
  Modelled from the spec: the \<^verbatim>\<open>HybridPSManager\<close> that client.py imports is not among
  the sources (manager.py holds the later \<^verbatim>\<open>PatrickStarManager\<close>). It is the
  process-wide budget tracker: per device a total budget, set once, and a running
  total of the memory occupied by chunks, kept by \<^verbatim>\<open>add\<close> and \<^verbatim>\<open>delete\<close> as in
  manager.py lines 242 to 256. \<^verbatim>\<open>max_mem\<close> is the total budget of the device and
  \<^verbatim>\<open>available_mem\<close> the part of it that is currently free.
\<close>

record HybridPSManager =
  mem_budget :: "device \<Rightarrow> int"
  mem_used :: "device \<Rightarrow> int"

definition max_mem :: "HybridPSManager \<Rightarrow> string \<Rightarrow> nat option \<Rightarrow> int" where
  "max_mem m ty idx = mem_budget m (Device ty idx)"

definition available_mem :: "HybridPSManager \<Rightarrow> string \<Rightarrow> nat option \<Rightarrow> int" where
  "available_mem m ty idx = mem_budget m (Device ty idx) - mem_used m (Device ty idx)"

definition add :: "HybridPSManager \<Rightarrow> device \<Rightarrow> int \<Rightarrow> HybridPSManager" where
  "add m d n = m\<lparr>mem_used := (mem_used m)(d := mem_used m d + n)\<rparr>"

definition delete :: "HybridPSManager \<Rightarrow> device \<Rightarrow> int \<Rightarrow> HybridPSManager" where
  "delete m d n = m\<lparr>mem_used := (mem_used m)(d := mem_used m d - n)\<rparr>"

text \<open>
  A \<^verbatim>\<open>torch.nn.Parameter\<close> as the client sees it: the device it lives on, its shape,
  whether it carries a gradient (\<^verbatim>\<open>param.grad is not None\<close>), and the attributes that \<^verbatim>\<open>_convert_to_ps_param\<close>
  attaches (\<^verbatim>\<open>ps_data_id\<close>, \<^verbatim>\<open>ps_grad_id\<close>, \<^verbatim>\<open>compute_device\<close>), absent on a
  parameter that was never converted. \<^verbatim>\<open>is_ps_param\<close> is
  \<^verbatim>\<open>hasattr(parameter, 'ps_data_id')\<close>.
\<close>

record ps_attrs =
  ps_data_id :: int
  ps_grad_id :: int
  compute_device :: device

record Param =
  param_device :: device
  param_shape :: "int list"
  param_has_grad :: bool
  ps :: "ps_attrs option"

definition is_ps_param :: "Param \<Rightarrow> bool" where
  "is_ps_param parameter = (ps parameter \<noteq> None)"

text \<open>
  The state of a \<^verbatim>\<open>HybridPSClient\<close>, with the singleton manager that
  \<^verbatim>\<open>HybridPSManager()\<close> returns. \<open>default_device\<close> is the device on which the chunk
  list creates a chunk (modelled from the spec: "a default device").
\<close>

record HybridPSClient =
  chunk_list :: "Chunk list"
  default_chunk_size :: int
  default_device :: device
  ps_id :: int
  param_data_dict :: "int \<rightharpoonup> Param"
  param_grad_dict :: "int \<rightharpoonup> Param"
  dict_tensor_id_chunk_id :: "int \<rightharpoonup> nat"
  ps_manager :: HybridPSManager

text \<open>
  Modelled from the spec: \<^verbatim>\<open>Chunk.move\<close> copies the whole buffer to the target device
  and rebinds every external view to it, all or nothing; afterwards the chunk's device
  is the target. The running totals of the manager follow the chunk.
\<close>

definition move :: "HybridPSClient \<Rightarrow> nat \<Rightarrow> device \<Rightarrow> HybridPSClient" where
  "move self chunk_id target =
     (let c = chunk_list self ! chunk_id
      in self\<lparr>chunk_list := (chunk_list self)[chunk_id := c\<lparr>device := target\<rparr>],
              ps_manager := add (delete (ps_manager self) (device c) (capacity c))
                              target (capacity c)\<rparr>)"

text \<open>
  \<^verbatim>\<open>chunk_move(chunk_id, device)\<close>, client.py lines 231 to 241. Indexing the chunk
  list beyond its end raises \<^verbatim>\<open>IndexError\<close> (already in the log message of line 236).
\<close>

definition chunk_move :: "HybridPSClient \<Rightarrow> nat \<Rightarrow> device \<Rightarrow> (py_error + unit) \<times> HybridPSClient" where
  "chunk_move self chunk_id dev =
     (if length (chunk_list self) \<le> chunk_id then (Inl IndexError, self)
      else if device (chunk_list self ! chunk_id) \<noteq> dev
        then (Inr (), move self chunk_id dev)
        else (Inr (), self))"

text \<open>The loop of lines 64 and 65: the victims are moved one after the other.\<close>

fun chunk_move_all :: "HybridPSClient \<Rightarrow> nat list \<Rightarrow> device \<Rightarrow> (py_error + unit) \<times> HybridPSClient" where
  "chunk_move_all self [] new_device = (Inr (), self)"
| "chunk_move_all self (idx # moved_list) new_device =
     (case chunk_move self idx new_device of
        (Inl e, self') \<Rightarrow> (Inl e, self')
      | (Inr u, self') \<Rightarrow> chunk_move_all self' moved_list new_device)"

text \<open>The alternate device of line 61.\<close>

definition new_device_of :: "device \<Rightarrow> device" where
  "new_device_of target_device =
     (if dev_type target_device = ''cuda'' then cpu_device else cuda0_device)"

text \<open>\<^verbatim>\<open>prepare_device(target_device, need_size)\<close>, client.py lines 39 to 65.\<close>

definition prepare_device :: "HybridPSClient \<Rightarrow> device \<Rightarrow> int \<Rightarrow> (py_error + unit) \<times> HybridPSClient" where
  "prepare_device self target_device need_size =
     (if max_mem (ps_manager self) (dev_type target_device) (dev_index target_device) < need_size
      then (Inl RuntimeError, self)
      else
        (let extra_size = need_size
               - available_mem (ps_manager self) (dev_type target_device) (dev_index target_device)
         in if extra_size \<le> 0 then (Inr (), self)
            else
              (case make_room (chunk_list self) extra_size target_device of
                 Inl e \<Rightarrow> (Inl e, self)
               | Inr moved_list \<Rightarrow>
                   chunk_move_all self moved_list (new_device_of target_device))))"

text \<open>The tensor id that an access type selects (lines 77 to 84).\<close>

definition tensor_of :: "ps_attrs \<Rightarrow> AccessType \<Rightarrow> int" where
  "tensor_of a access_type = (case access_type of DATA \<Rightarrow> ps_data_id a | GRAD \<Rightarrow> ps_grad_id a)"

text \<open>
  \<^verbatim>\<open>access(param, access_type)\<close>, client.py lines 67 to 107; \<open>now\<close> is the time
  that \<^verbatim>\<open>touch\<close> reads. A missing key of \<^verbatim>\<open>dict_tensor_id_chunk_id\<close> raises
  \<^verbatim>\<open>KeyError\<close>, a chunk id beyond the chunk list \<^verbatim>\<open>IndexError\<close>. The two access types
  of the enumeration are DATA and GRAD, so the \<^verbatim>\<open>else: raise RuntimeError\<close> branches
  are not reached. On a parameter that carries no gradient \<^verbatim>\<open>param.grad\<close> is
  \<^verbatim>\<open>None\<close>, and reading \<^verbatim>\<open>param.grad.device\<close> (line 93) raises
  \<^verbatim>\<open>AttributeError\<close>, after the chunk was migrated if it had to be.

  Modelled from the spec: \<^verbatim>\<open>param.ps_data_tensor\<close>, \<^verbatim>\<open>param.ps_grad_tensor\<close>,
  \<^verbatim>\<open>param.data\<close> and \<^verbatim>\<open>param.grad\<close> (when there is one) are views into the
  payload of the chunk the tensor is bound to, and \<^verbatim>\<open>Chunk.move\<close> keeps them bound to it; the device of each
  is therefore the device of that chunk at the time it is read.
\<close>

definition access ::
  "HybridPSClient \<Rightarrow> nat \<Rightarrow> Param \<Rightarrow> AccessType \<Rightarrow> (py_error + unit) \<times> HybridPSClient" where
  "access self now param access_type =
     (case ps param of
        None \<Rightarrow> (Inl TypeError, self)
      | Some a \<Rightarrow>
          (case dict_tensor_id_chunk_id self (tensor_of a access_type) of
             None \<Rightarrow> (Inl KeyError, self)
           | Some chunk_id \<Rightarrow>
               if length (chunk_list self) \<le> chunk_id then (Inl IndexError, self)
               else
                 (let current_device = device (chunk_list self ! chunk_id);
                      prepared =
                        (if compute_device a \<noteq> current_device then
                           (case prepare_device self (compute_device a)
                                   (capacity (chunk_list self ! chunk_id)) of
                              (Inl e, self1) \<Rightarrow> (Inl e, self1)
                            | (Inr u, self1) \<Rightarrow> chunk_move self1 chunk_id (compute_device a))
                         else (Inr (), self))
                  in case prepared of
                       (Inl e, self2) \<Rightarrow> (Inl e, self2)
                     | (Inr u, self2) \<Rightarrow>
                         if access_type = GRAD \<and> \<not> param_has_grad param
                         then (Inl AttributeError, self2)
                         else
                           (let current_device = device (chunk_list self2 ! chunk_id)
                            in if current_device \<noteq> compute_device a
                               then (Inl AssertionError, self2)
                               else
                                 (let c = touch now (chunk_list self2 ! chunk_id);
                                      c' = c\<lparr>tensor_info_list :=
                                              set_status (tensor_of a access_type) COMPUTE
                                                (tensor_info_list c)\<rparr>
                                  in (Inr (),
                                      self2\<lparr>chunk_list :=
                                              (chunk_list self2)[chunk_id := c']\<rparr>))))))"

text \<open>
  \<^verbatim>\<open>release(param, access_type)\<close>, client.py lines 117 to 127. There is no
  \<^verbatim>\<open>is_ps_param\<close> check: on a parameter without the attributes, reading
  \<^verbatim>\<open>param.ps_data_id\<close> raises \<^verbatim>\<open>AttributeError\<close>.
\<close>

definition release ::
  "HybridPSClient \<Rightarrow> Param \<Rightarrow> AccessType \<Rightarrow> (py_error + unit) \<times> HybridPSClient" where
  "release self param access_type =
     (case ps param of
        None \<Rightarrow> (Inl AttributeError, self)
      | Some a \<Rightarrow>
          (case dict_tensor_id_chunk_id self (tensor_of a access_type) of
             None \<Rightarrow> (Inl KeyError, self)
           | Some chunk_id \<Rightarrow>
               if length (chunk_list self) \<le> chunk_id then (Inl IndexError, self)
               else
                 (let c = chunk_list self ! chunk_id;
                      c' = c\<lparr>tensor_info_list :=
                              set_status (tensor_of a access_type) HOLD (tensor_info_list c)\<rparr>
                  in (Inr (), self\<lparr>chunk_list := (chunk_list self)[chunk_id := c']\<rparr>))))"

text \<open>
  Modelled from the spec: \<^verbatim>\<open>ChunkList.allocate(extent, tensor_id)\<close> scans the chunks
  in id order for one with at least \<open>extent\<close> free capacity; if none qualifies it
  creates a chunk of capacity max (default chunk size, extent) on the default device,
  never touched so far, and allocates there. It registers a new tensor record (status
  UNINIT) at the first free offset and returns the chunk id with the view, which is
  the offset here.
\<close>

definition used_extent :: "Chunk \<Rightarrow> int" where
  "used_extent c = sum_list (map size (tensor_info_list c))"

definition allocate ::
  "HybridPSClient \<Rightarrow> int \<Rightarrow> int option \<Rightarrow> (nat \<times> int) \<times> HybridPSClient" where
  "allocate self extent tid =
     (case find (\<lambda>i. extent \<le> capacity (chunk_list self ! i) - used_extent (chunk_list self ! i))
             [0 ..< length (chunk_list self)] of
        Some i \<Rightarrow>
          (let c = chunk_list self ! i;
               info = \<lparr>tensor_id = tid, start = used_extent c, size = extent, status = UNINIT\<rparr>
           in ((i, used_extent c),
               self\<lparr>chunk_list :=
                      (chunk_list self)[i := c\<lparr>tensor_info_list := tensor_info_list c @ [info]\<rparr>]\<rparr>))
      | None \<Rightarrow>
          (let info = \<lparr>tensor_id = tid, start = 0, size = extent, status = UNINIT\<rparr>;
               c = \<lparr>capacity = max (default_chunk_size self) extent, device = default_device self,
                    tensor_info_list = [info], timestamp = 0\<rparr>
           in ((length (chunk_list self), 0),
               self\<lparr>chunk_list := chunk_list self @ [c],
                     ps_manager := add (ps_manager self) (default_device self) (capacity c)\<rparr>)))"

text \<open>
  \<^verbatim>\<open>new_tensor(shape, tensor_id)\<close>, client.py lines 137 to 154: the number of
  elements is the product of the shape; the binding of the tensor id is written when
  the id is not \<^verbatim>\<open>None\<close>. The result is the view (its offset) and the chunk id.
\<close>

definition new_tensor ::
  "HybridPSClient \<Rightarrow> int list \<Rightarrow> int option \<Rightarrow> (int \<times> nat) \<times> HybridPSClient" where
  "new_tensor self shape tid =
     (let numel = prod_list shape
      in case allocate self numel tid of
           ((chunk_id, dest), self1) \<Rightarrow>
             (case tid of
                None \<Rightarrow> ((dest, chunk_id), self1)
              | Some t \<Rightarrow>
                  ((dest, chunk_id),
                   self1\<lparr>dict_tensor_id_chunk_id :=
                           (dict_tensor_id_chunk_id self1)(t \<mapsto> chunk_id)\<rparr>)))"

text \<open>\<^verbatim>\<open>generate_id()\<close>, lines 160 to 162.\<close>

definition generate_id :: "HybridPSClient \<Rightarrow> int \<times> HybridPSClient" where
  "generate_id self = (ps_id self + 1, self\<lparr>ps_id := ps_id self + 1\<rparr>)"

text \<open>
  \<^verbatim>\<open>_convert_to_ps_param(param)\<close>, lines 164 to 199; the result carries the parameter
  as the call leaves it. When the parameter has a gradient, line 194 calls \<^verbatim>\<open>copy_\<close>
  on \<^verbatim>\<open>param.ps_grad_tesnor\<close>, which line 179 set to \<^verbatim>\<open>None\<close>: an
  \<^verbatim>\<open>AttributeError\<close>, raised after both tensors were allocated and before the
  parameter is entered into the two dictionaries.
\<close>

definition convert_to_ps_param ::
  "HybridPSClient \<Rightarrow> Param \<Rightarrow> (py_error + unit) \<times> HybridPSClient \<times> Param" where
  "convert_to_ps_param self param =
     (if is_ps_param param then (Inr (), self, param)
      else
        (case generate_id self of (data_id, self1) \<Rightarrow>
         case generate_id self1 of (grad_id, self2) \<Rightarrow>
           (let param1 = param\<lparr>ps := Some \<lparr>ps_data_id = data_id, ps_grad_id = grad_id,
                                             compute_device = param_device param\<rparr>\<rparr>
            in case new_tensor self2 (param_shape param) (Some data_id) of (v1, self3) \<Rightarrow>
               case new_tensor self3 (param_shape param) (Some grad_id) of (v2, self4) \<Rightarrow>
                 if param_has_grad param then (Inl AttributeError, self4, param1)
                 else (Inr (),
                       self4\<lparr>param_data_dict := (param_data_dict self4)(data_id \<mapsto> param1),
                             param_grad_dict := (param_grad_dict self4)(grad_id \<mapsto> param1)\<rparr>,
                       param1))))"

text \<open>\<^verbatim>\<open>register_param(src_param)\<close>, lines 214 to 223.\<close>

definition register_param ::
  "HybridPSClient \<Rightarrow> Param \<Rightarrow> (py_error + unit) \<times> HybridPSClient \<times> Param" where
  "register_param self src_param =
     (if is_ps_param src_param then (Inr (), self, src_param)
      else convert_to_ps_param self src_param)"

text \<open>
  The operations of the client as values, so that a sequence of calls is a list. A
  call leaves its state behind whether it returns or raises.
\<close>

datatype client_op =
  Access nat Param AccessType
| Release Param AccessType
| ChunkMove nat device
| PrepareDevice device int
| NewTensor "int list" "int option"
| RegisterParam Param

fun run_op :: "HybridPSClient \<Rightarrow> client_op \<Rightarrow> HybridPSClient" where
  "run_op self (Access now param access_type) = snd (access self now param access_type)"
| "run_op self (Release param access_type) = snd (release self param access_type)"
| "run_op self (ChunkMove chunk_id dev) = snd (chunk_move self chunk_id dev)"
| "run_op self (PrepareDevice target_device need_size) =
     snd (prepare_device self target_device need_size)"
| "run_op self (NewTensor shape tid) = snd (new_tensor self shape tid)"
| "run_op self (RegisterParam param) = fst (snd (register_param self param))"

fun run_ops :: "HybridPSClient \<Rightarrow> client_op list \<Rightarrow> HybridPSClient" where
  "run_ops self [] = self"
| "run_ops self (op # ops) = run_ops (run_op self op) ops"

text \<open>
  The tensor ids that a call allocates, and so binds: the id given to \<^verbatim>\<open>new_tensor\<close>,
  and the two ids that registering an unconverted parameter generates.
\<close>

fun allocates :: "HybridPSClient \<Rightarrow> client_op \<Rightarrow> int \<Rightarrow> bool" where
  "allocates self (NewTensor shape tid) t = (tid = Some t)"
| "allocates self (RegisterParam param) t =
     (\<not> is_ps_param param \<and> (t = ps_id self + 1 \<or> t = ps_id self + 2))"
| "allocates self op t = False"

fun reallocated :: "HybridPSClient \<Rightarrow> client_op list \<Rightarrow> int \<Rightarrow> bool" where
  "reallocated self [] t = False"
| "reallocated self (op # ops) t = (allocates self op t \<or> reallocated (run_op self op) ops t)"

text \<open>
  A registered tensor handle: the parameter carries the attributes, the tensor id that
  the access type selects is bound to a chunk of the chunk list, and that chunk holds
  a record of the tensor.
\<close>

definition registered :: "HybridPSClient \<Rightarrow> Param \<Rightarrow> AccessType \<Rightarrow> bool" where
  "registered self param access_type =
     (case ps param of
        None \<Rightarrow> False
      | Some a \<Rightarrow>
          (case dict_tensor_id_chunk_id self (tensor_of a access_type) of
             None \<Rightarrow> False
           | Some chunk_id \<Rightarrow>
               chunk_id < length (chunk_list self)
               \<and> status_of (tensor_of a access_type)
                    (tensor_info_list (chunk_list self ! chunk_id)) \<noteq> None))"

text \<open>
  The chunk list in which the chunks of the given ids stand on the device \<open>d\<close> and
  every other chunk is as before: what moving each of the ids to \<open>d\<close> has to produce.
\<close>

definition relocate :: "device \<Rightarrow> nat list \<Rightarrow> Chunk list \<Rightarrow> Chunk list" where
  "relocate d ids cs =
     map (\<lambda>i. if i \<in> set ids then (cs ! i)\<lparr>device := d\<rparr> else cs ! i) [0 ..< length cs]"

text \<open>The calls of \<^verbatim>\<open>new_tensor\<close> among the operations: the caller chooses the id.\<close>

fun is_new_tensor :: "client_op \<Rightarrow> bool" where
  "is_new_tensor (NewTensor shape tid) = True"
| "is_new_tensor op = False"

section \<open>Concrete inputs\<close>

text \<open>
  Scenario C of the spec: the warmup recorded the accelerator samples 10, 20 and 15,
  the budget is 100, the metronome stands at moment 1 of 3 and the stage is FWD. The
  default chunk size is 3.
\<close>

definition scenario_c_manager :: PatrickStarManager where
  "scenario_c_manager =
     \<lparr>gpu_chunk_used_mem = 0, cpu_chunk_used_mem = 0, warmup_gpu_chunk_mem_ratio = 0.2,
      always_warmup = False, overall_gpu_mem = 100, overall_cpu_mem = 200,
      cpu_used_list = [], cpu_chunk_used_list = [], cpu_sys_used_list = [],
      gpu_used_list = [10, 20, 15], gpu_chunk_used_list = [0, 0, 0],
      gpu_sys_used_list = [10, 20, 15],
      start_training = True, training_stage = FWD, mgr_default_chunk_size = 3\<rparr>"

definition scenario_c_metronome :: Metronome where
  "scenario_c_metronome = \<lparr>moment = 1, is_warmup = False, total_moment = 3\<rparr>"

text \<open>A manager in the ADAM stage while the metronome is still in warmup.\<close>

definition adam_warmup_manager :: PatrickStarManager where
  "adam_warmup_manager = scenario_c_manager\<lparr>training_stage := ADAM\<rparr>"

definition warmup_metronome :: Metronome where
  "warmup_metronome = \<lparr>moment = 0, is_warmup = True, total_moment = 0\<rparr>"

text \<open>
  Two chunks of 64 elements resident on the accelerator, neither in use; the second
  was touched earlier than the first.
\<close>

definition two_gpu_chunks :: "Chunk list" where
  "two_gpu_chunks =
     [\<lparr>capacity = 64, device = cuda0_device,
       tensor_info_list = [\<lparr>tensor_id = Some 0, start = 0, size = 64, status = HOLD\<rparr>],
       timestamp = 7\<rparr>,
      \<lparr>capacity = 64, device = cuda0_device,
       tensor_info_list = [\<lparr>tensor_id = Some 1, start = 0, size = 64, status = HOLD\<rparr>],
       timestamp = 3\<rparr>]"

definition scenario_c_client :: client where
  "scenario_c_client =
     \<lparr>client_local_rank = 0, client_metronome = scenario_c_metronome,
      client_chunk_list = two_gpu_chunks\<rparr>"

text \<open>The same client with no chunk on the accelerator.\<close>

definition empty_client :: client where
  "empty_client =
     \<lparr>client_local_rank = 0, client_metronome = scenario_c_metronome, client_chunk_list = []\<rparr>"

text \<open>
  Readings of one call: 30 in use on the accelerator at the call, a peak of 40 over
  the period, 50 in use on the host.
\<close>

definition quiet_readings :: readings where
  "quiet_readings =
     \<lparr>dist_is_initialized = False,
      get_sys_memory_used = (\<lambda>d. if dev_type d = ''cuda'' then 30 else 50),
      max_mem_usage_period = 40\<rparr>"

text \<open>A manager and a client at the start of a warmup iteration: empty traces, moment 0.\<close>

definition fresh_manager :: PatrickStarManager where
  "fresh_manager =
     \<lparr>gpu_chunk_used_mem = 12, cpu_chunk_used_mem = 5, warmup_gpu_chunk_mem_ratio = 0.2,
      always_warmup = False, overall_gpu_mem = 100, overall_cpu_mem = 200,
      cpu_used_list = [], cpu_chunk_used_list = [], cpu_sys_used_list = [],
      gpu_used_list = [], gpu_chunk_used_list = [], gpu_sys_used_list = [],
      start_training = True, training_stage = FWD, mgr_default_chunk_size = 3\<rparr>"

definition fresh_client :: client where
  "fresh_client =
     \<lparr>client_local_rank = 0, client_metronome = warmup_metronome,
      client_chunk_list = two_gpu_chunks\<rparr>"

text \<open>
  A client whose accelerator (budget 128) is filled by the two idle chunks above; the
  host has a budget of 1000.
\<close>

definition eviction_client :: HybridPSClient where
  "eviction_client =
     \<lparr>chunk_list = two_gpu_chunks, default_chunk_size = 64, default_device = cpu_device,
      ps_id = 1, param_data_dict = Map.empty, param_grad_dict = Map.empty,
      dict_tensor_id_chunk_id = [0 \<mapsto> 0, 1 \<mapsto> 1],
      ps_manager = \<lparr>mem_budget = (\<lambda>d. if d = cuda0_device then 128 else 1000),
                     mem_used = (\<lambda>d. if d = cuda0_device then 128 else 0)\<rparr>\<rparr>"

text \<open>
  A client whose accelerator (budget 100) holds one chunk of 64 elements that is in
  use: its only tensor has status COMPUTE.
\<close>

definition busy_client :: HybridPSClient where
  "busy_client =
     \<lparr>chunk_list =
        [\<lparr>capacity = 64, device = cuda0_device,
          tensor_info_list = [\<lparr>tensor_id = Some 0, start = 0, size = 64, status = COMPUTE\<rparr>],
          timestamp = 5\<rparr>],
      default_chunk_size = 64, default_device = cpu_device,
      ps_id = 0, param_data_dict = Map.empty, param_grad_dict = Map.empty,
      dict_tensor_id_chunk_id = [0 \<mapsto> 0],
      ps_manager = \<lparr>mem_budget = (\<lambda>d. if d = cuda0_device then 100 else 1000),
                     mem_used = (\<lambda>d. if d = cuda0_device then 64 else 0)\<rparr>\<rparr>"

text \<open>
  A parameter that was never converted, and the same parameter as a handle whose data
  tensor has id 2 and whose gradient tensor has id 3, to be computed on cuda:0.
\<close>

definition plain_param :: Param where
  "plain_param =
     \<lparr>param_device = cuda0_device, param_shape = [4, 8], param_has_grad = False, ps = None\<rparr>"

definition handle_param :: Param where
  "handle_param =
     plain_param\<lparr>ps := Some \<lparr>ps_data_id = 2, ps_grad_id = 3, compute_device = cuda0_device\<rparr>\<rparr>"

text \<open>
  A client with two chunks of 64 elements. Chunk 0 fills the accelerator (budget 64)
  and holds the idle tensors 0 and 1; chunk 1 is on the cpu and holds the tensors 2
  and 3 of the handle above.
\<close>

definition swap_client :: HybridPSClient where
  "swap_client =
     \<lparr>chunk_list =
        [\<lparr>capacity = 64, device = cuda0_device,
          tensor_info_list = [\<lparr>tensor_id = Some 0, start = 0, size = 32, status = HOLD\<rparr>,
                              \<lparr>tensor_id = Some 1, start = 32, size = 32, status = HOLD\<rparr>],
          timestamp = 4\<rparr>,
         \<lparr>capacity = 64, device = cpu_device,
          tensor_info_list = [\<lparr>tensor_id = Some 2, start = 0, size = 32, status = HOLD\<rparr>,
                              \<lparr>tensor_id = Some 3, start = 32, size = 32, status = UNINIT\<rparr>],
          timestamp = 6\<rparr>],
      default_chunk_size = 64, default_device = cpu_device,
      ps_id = 3, param_data_dict = [2 \<mapsto> handle_param], param_grad_dict = [3 \<mapsto> handle_param],
      dict_tensor_id_chunk_id = [0 \<mapsto> 0, 1 \<mapsto> 0, 2 \<mapsto> 1, 3 \<mapsto> 1],
      ps_manager = \<lparr>mem_budget = (\<lambda>d. if d = cuda0_device then 64 else 1000),
                     mem_used = (\<lambda>d. if d = cuda0_device then 64 else 64)\<rparr>\<rparr>"

text \<open>
  One chunk of 128 elements on the device \<open>d\<close>, in use: its tensor has status
  COMPUTE. A client of rank 0 that holds it on cuda:0 and a client of rank 1 that
  holds it on cuda:1, both at moment 1 of 3 after warmup; readings taken with the
  process group initialised; and a manager whose trace has a single sample.
\<close>

definition computing_chunks :: "device \<Rightarrow> Chunk list" where
  "computing_chunks d =
     [\<lparr>capacity = 128, device = d,
       tensor_info_list = [\<lparr>tensor_id = Some 0, start = 0, size = 128, status = COMPUTE\<rparr>],
       timestamp = 2\<rparr>]"

definition computing_client :: client where
  "computing_client =
     \<lparr>client_local_rank = 0, client_metronome = scenario_c_metronome,
      client_chunk_list = computing_chunks cuda0_device\<rparr>"

definition rank1_client :: client where
  "rank1_client =
     \<lparr>client_local_rank = 1, client_metronome = scenario_c_metronome,
      client_chunk_list = computing_chunks (Device ''cuda'' (Some 1))\<rparr>"

definition dist_readings :: readings where
  "dist_readings = quiet_readings\<lparr>dist_is_initialized := True\<rparr>"

definition short_trace_manager :: PatrickStarManager where
  "short_trace_manager = scenario_c_manager\<lparr>gpu_sys_used_list := [10]\<rparr>"




section \<open>The budget forecast of the manager\<close>

text \<open>
  C4. Warmup is complete when neither the manager's always-warmup flag nor the
  metronome's warmup flag is set. Then, once training has started and the stage is FWD
  or BWD, and both the current and the next moment lie inside the recorded trace,
  \<^verbatim>\<open>available_chunk_mem\<close> for the accelerator is the smaller of (budget minus
  recorded non-chunk usage at the current moment) and (budget minus recorded non-chunk
  usage at the next moment), minus the margin world size times 2 times the default
  chunk size.
\<close>

theorem available_chunk_mem_fwd_bwd:
  assumes "\<not> always_warmup self" and "\<not> is_warmup metronome" and "start_training self"
    and "training_stage self = FWD \<or> training_stage self = BWD"
    and "moment metronome < length (gpu_sys_used_list self)"
    and "next_moment metronome < length (gpu_sys_used_list self)"
  shows "available_chunk_mem world_size self metronome ''cuda'' =
     Inr (Some (min (overall_gpu_mem self - of_int (gpu_sys_used_list self ! moment metronome))
                    (overall_gpu_mem self
                       - of_int (gpu_sys_used_list self ! next_moment metronome))
                - of_int world_size * 2 * of_int (mgr_default_chunk_size self)))"
proof -
  have stage: "training_stage self \<noteq> ADAM"
    using assms(4) by auto
  show ?thesis
    using assms stage
    by (auto simp: available_chunk_mem_def Let_def min.commute)
qed

text \<open>
  The example of the claim: samples 10, 20, 15, budget 100, moment 1, FWD. With world
  size 2 and chunk size 3 the margin is 12 and the result is min (100 - 20) (100 - 15)
  - 12 = 68.
\<close>

theorem available_chunk_mem_fwd_bwd_witness:
  "\<not> always_warmup scenario_c_manager \<and> \<not> is_warmup scenario_c_metronome
   \<and> start_training scenario_c_manager \<and> training_stage scenario_c_manager = FWD
   \<and> moment scenario_c_metronome = 1 \<and> next_moment scenario_c_metronome = 2
   \<and> available_chunk_mem 2 scenario_c_manager scenario_c_metronome ''cuda''
       = Inr (Some (min (100 - 20) (100 - 15) - 12))"
  using available_chunk_mem_fwd_bwd [of scenario_c_manager scenario_c_metronome 2]
  by (simp add: scenario_c_manager_def scenario_c_metronome_def next_moment_def)

text \<open>
  C5, as the claim states it, fails in the ADAM stage: during warmup the accelerator
  branch returns the budget minus 16 default chunk sizes (100 - 48 = 52 here), not the
  budget times the warmup ratio (100 * 0.2 = 20).
\<close>

theorem available_chunk_mem_warmup_adam_counterexample:
  "is_warmup warmup_metronome
   \<and> available_chunk_mem 1 adam_warmup_manager warmup_metronome ''cuda'' = Inr (Some 52)
   \<and> overall_gpu_mem adam_warmup_manager * warmup_gpu_chunk_mem_ratio adam_warmup_manager = 20
   \<and> available_chunk_mem 1 adam_warmup_manager warmup_metronome ''cuda''
       \<noteq> Inr (Some (overall_gpu_mem adam_warmup_manager
                       * warmup_gpu_chunk_mem_ratio adam_warmup_manager))"
  by (simp add: available_chunk_mem_def adam_warmup_manager_def scenario_c_manager_def
      warmup_metronome_def)

text \<open>
  C5, amended. Whenever warmup is active or training has not started,
  \<^verbatim>\<open>available_chunk_mem\<close> returns the full cpu budget for the cpu device class; for
  the accelerator it returns the budget times the warmup ratio in every stage but ADAM,
  and the budget minus 16 times the default chunk size in the ADAM stage.
\<close>

theorem available_chunk_mem_warmup:
  assumes "is_warmup metronome \<or> \<not> start_training self"
  shows "available_chunk_mem world_size self metronome ''cpu'' = Inr (Some (overall_cpu_mem self))
     \<and> available_chunk_mem world_size self metronome ''cuda'' =
         Inr (Some (if training_stage self = ADAM
                    then overall_gpu_mem self - 16 * of_int (mgr_default_chunk_size self)
                    else overall_gpu_mem self * warmup_gpu_chunk_mem_ratio self))"
  using assms by (auto simp: available_chunk_mem_def)

theorem available_chunk_mem_warmup_witness:
  "is_warmup warmup_metronome
   \<and> available_chunk_mem 1 scenario_c_manager warmup_metronome ''cpu'' = Inr (Some 200)
   \<and> available_chunk_mem 1 scenario_c_manager warmup_metronome ''cuda'' = Inr (Some 20)
   \<and> available_chunk_mem 1 adam_warmup_manager warmup_metronome ''cuda'' = Inr (Some 52)"
  using available_chunk_mem_warmup [of warmup_metronome scenario_c_manager 1]
    available_chunk_mem_warmup [of warmup_metronome adam_warmup_manager 1]
  by (simp add: scenario_c_manager_def adam_warmup_manager_def warmup_metronome_def)

section \<open>The per-moment step of the manager\<close>

lemma tiktac_warmup_step:
  assumes "is_warmup (client_metronome c)"
    and "length (gpu_sys_used_list self) = moment (client_metronome c)"
  shows "tiktac env self c =
     (Inr (),
      self\<lparr>gpu_used_list := gpu_used_list self @
               [max (max_mem_usage_period env) (get_sys_memory_used env (tiktac_gpu_device env c))],
            gpu_chunk_used_list := gpu_chunk_used_list self @ [gpu_chunk_used_mem self],
            gpu_sys_used_list := gpu_sys_used_list self @
               [max (max_mem_usage_period env) (get_sys_memory_used env (tiktac_gpu_device env c))
                - gpu_chunk_used_mem self],
            cpu_used_list := cpu_used_list self @ [get_sys_memory_used env (Device ''cpu'' (Some 0))],
            cpu_chunk_used_list := cpu_chunk_used_list self @ [cpu_chunk_used_mem self],
            cpu_sys_used_list := cpu_sys_used_list self @
               [get_sys_memory_used env (Device ''cpu'' (Some 0)) - cpu_chunk_used_mem self]\<rparr>,
      c\<lparr>client_metronome := metronome_tiktac (client_metronome c)\<rparr>)"
  using assms by (simp add: tiktac_def Let_def)

lemma tiktac_after_warmup:
  assumes "\<not> is_warmup (client_metronome c)"
    and "next_moment (client_metronome c) < length (gpu_sys_used_list self)"
  shows "tiktac env self c =
     (let headroom = overall_gpu_mem self
                      - of_int (gpu_sys_used_list self ! next_moment (client_metronome c));
          resident = get_chunk_memory_used (client_chunk_list c) (tiktac_gpu_device env c)
      in if headroom < of_int resident
         then (case make_room (client_chunk_list c) (of_int resident - headroom)
                      (tiktac_gpu_device env c) of
                 Inl e \<Rightarrow> (Inl e, self, c)
               | Inr moved \<Rightarrow>
                   (Inr (), self, c\<lparr>client_metronome := metronome_tiktac (client_metronome c)\<rparr>))
         else (Inr (), self, c\<lparr>client_metronome := metronome_tiktac (client_metronome c)\<rparr>))"
  using assms by (simp add: tiktac_def Let_def)

lemma tiktac_returns_advanced:
  assumes "tiktac env self c = (Inr u, self', c')"
  shows "client_metronome c' = metronome_tiktac (client_metronome c)"
  using assms
  by (auto simp: tiktac_def Let_def split: if_splits sum.splits)

lemma tiktac_run_warmup:
  "is_warmup (client_metronome c) \<Longrightarrow>
   length (gpu_sys_used_list self) = moment (client_metronome c) \<Longrightarrow>
   \<exists>self' c'. tiktac_run envs self c = (Inr (), self', c')
     \<and> is_warmup (client_metronome c')
     \<and> length (gpu_sys_used_list self') = moment (client_metronome c')
     \<and> moment (client_metronome c') = moment (client_metronome c) + length envs"
proof (induction envs arbitrary: self c)
  case Nil
  then show ?case by simp
next
  case (Cons env envs)
  obtain self1 c1 where step: "tiktac env self c = (Inr (), self1, c1)"
    and w: "is_warmup (client_metronome c1)"
    and l: "length (gpu_sys_used_list self1) = moment (client_metronome c1)"
    and m: "moment (client_metronome c1) = moment (client_metronome c) + 1"
    using tiktac_warmup_step [OF Cons.prems(1) Cons.prems(2), of env] Cons.prems
    by (simp add: metronome_tiktac_def)
  from Cons.IH [OF w l] obtain self' c' where
    "tiktac_run envs self1 c1 = (Inr (), self', c')" "is_warmup (client_metronome c')"
    "length (gpu_sys_used_list self') = moment (client_metronome c')"
    "moment (client_metronome c') = moment (client_metronome c1) + length envs"
    by blast
  then show ?case
    using step m by simp
qed

lemma candidates_two_gpu_chunks: "candidates two_gpu_chunks cuda0_device = [1, 0]"
  by (simp add: candidates_def two_gpu_chunks_def cuda0_device_def get_status_def upt_rec)

lemma make_room_two_gpu_chunks: "make_room two_gpu_chunks (43::real) cuda0_device = Inr [1]"
  by (simp add: make_room_def candidates_two_gpu_chunks) (simp add: two_gpu_chunks_def)

lemma used_two_gpu_chunks: "get_chunk_memory_used two_gpu_chunks cuda0_device = 128"
  by (simp add: get_chunk_memory_used_def two_gpu_chunks_def)

lemma tiktac_raises_unchanged:
  assumes "tiktac env self c = (Inl e, self', c')"
  shows "c' = c"
  using assms
  by (auto simp: tiktac_def Let_def split: if_splits sum.splits)

lemma tiktac_beyond_trace:
  assumes "\<not> is_warmup (client_metronome c)"
    and "length (gpu_sys_used_list self) \<le> next_moment (client_metronome c)"
  shows "tiktac env self c = (Inl IndexError, self, c)"
  using assms by (simp add: tiktac_def Let_def)

lemma make_room_computing:
  "make_room (computing_chunks d) (need::real) d = (if need \<le> 0 then Inr [] else Inl RuntimeError)"
  by (simp add: make_room_def candidates_def computing_chunks_def get_status_def upt_rec)

lemma used_computing:
  "get_chunk_memory_used (computing_chunks d) d' = (if d = d' then 128 else 0)"
  by (simp add: get_chunk_memory_used_def computing_chunks_def)

text \<open>
  C3, amended. After warmup, with the next moment inside the recorded trace,
  \<^verbatim>\<open>tiktac\<close> takes as headroom the accelerator budget minus the recorded non-chunk
  usage at the next moment; it calls \<^verbatim>\<open>make_room\<close> on the accelerator of its rank
  (cuda:rank, rank 0 when the process group is not initialised) exactly when the
  chunk memory resident there exceeds the headroom, asking for the resident memory
  minus the headroom, and otherwise does not consult it. With the next moment beyond
  the trace it raises \<^verbatim>\<open>IndexError\<close>. In every case, warmup or not, a call that
  returns has advanced the metronome by exactly one moment as its last step, and a
  call that raises (the failed assertion of warmup, a next moment beyond the trace, a
  failure of \<^verbatim>\<open>make_room\<close>) leaves the metronome and the client as they were.
\<close>

theorem tiktac_lookahead:
  "(\<not> is_warmup (client_metronome c)
      \<and> next_moment (client_metronome c) < length (gpu_sys_used_list self) \<longrightarrow>
    tiktac env self c =
     (let gpu_device =
            Device ''cuda'' (Some (if dist_is_initialized env then client_local_rank c else 0));
          headroom = overall_gpu_mem self
                      - of_int (gpu_sys_used_list self ! next_moment (client_metronome c));
          resident = get_chunk_memory_used (client_chunk_list c) gpu_device
      in if headroom < of_int resident
         then (case make_room (client_chunk_list c) (of_int resident - headroom) gpu_device of
                 Inl e \<Rightarrow> (Inl e, self, c)
               | Inr moved \<Rightarrow>
                   (Inr (), self, c\<lparr>client_metronome := metronome_tiktac (client_metronome c)\<rparr>))
         else (Inr (), self, c\<lparr>client_metronome := metronome_tiktac (client_metronome c)\<rparr>)))
   \<and> (\<not> is_warmup (client_metronome c)
        \<and> length (gpu_sys_used_list self) \<le> next_moment (client_metronome c) \<longrightarrow>
      tiktac env self c = (Inl IndexError, self, c))
   \<and> (\<forall>u self' c'. tiktac env self c = (Inr u, self', c') \<longrightarrow>
         client_metronome c' = metronome_tiktac (client_metronome c)
         \<and> moment (client_metronome c') = moment (client_metronome c) + 1)
   \<and> (\<forall>e self' c'. tiktac env self c = (Inl e, self', c') \<longrightarrow> c' = c)"
proof (intro conjI impI allI)
  assume "\<not> is_warmup (client_metronome c)
            \<and> next_moment (client_metronome c) < length (gpu_sys_used_list self)"
  then show "tiktac env self c =
     (let gpu_device =
            Device ''cuda'' (Some (if dist_is_initialized env then client_local_rank c else 0));
          headroom = overall_gpu_mem self
                      - of_int (gpu_sys_used_list self ! next_moment (client_metronome c));
          resident = get_chunk_memory_used (client_chunk_list c) gpu_device
      in if headroom < of_int resident
         then (case make_room (client_chunk_list c) (of_int resident - headroom) gpu_device of
                 Inl e \<Rightarrow> (Inl e, self, c)
               | Inr moved \<Rightarrow>
                   (Inr (), self, c\<lparr>client_metronome := metronome_tiktac (client_metronome c)\<rparr>))
         else (Inr (), self, c\<lparr>client_metronome := metronome_tiktac (client_metronome c)\<rparr>))"
    using tiktac_after_warmup [of c self env]
    by (simp add: tiktac_gpu_device_def Let_def)
next
  assume "\<not> is_warmup (client_metronome c)
        \<and> length (gpu_sys_used_list self) \<le> next_moment (client_metronome c)"
  then show "tiktac env self c = (Inl IndexError, self, c)"
    using tiktac_beyond_trace by blast
next
  fix u self' c'
  assume "tiktac env self c = (Inr u, self', c')"
  then show "client_metronome c' = metronome_tiktac (client_metronome c)"
    by (rule tiktac_returns_advanced)
  then show "moment (client_metronome c') = moment (client_metronome c) + 1"
    by (simp add: metronome_tiktac_def)
next
  fix e self' c'
  assume "tiktac env self c = (Inl e, self', c')"
  then show "c' = c"
    by (rule tiktac_raises_unchanged)
qed

lemma scenario_c_after_warmup:
  "\<not> is_warmup scenario_c_metronome" "next_moment scenario_c_metronome = 2"
  "moment scenario_c_metronome = 1"
  "length (gpu_sys_used_list scenario_c_manager) = 3"
  "overall_gpu_mem scenario_c_manager - of_int (gpu_sys_used_list scenario_c_manager ! 2) = 85"
  "length (gpu_sys_used_list short_trace_manager) = 1"
  by (simp_all add: scenario_c_metronome_def next_moment_def scenario_c_manager_def
      short_trace_manager_def)

text \<open>
  C3, as the claim states it, fails in its last part: a call of \<^verbatim>\<open>tiktac\<close> that
  raises has not advanced the metronome. At moment 1 after warmup, with 128 elements
  of chunks in use on the accelerator and a headroom of 85, \<^verbatim>\<open>make_room\<close> finds no
  victim and its failure leaves the metronome at moment 1; so does the
  \<^verbatim>\<open>IndexError\<close> of a trace that ends before the next moment.
\<close>

theorem tiktac_raises_without_advancing_counterexample:
  "\<not> is_warmup (client_metronome computing_client)
   \<and> moment (client_metronome computing_client) = 1
   \<and> fst (tiktac quiet_readings scenario_c_manager computing_client) = Inl RuntimeError
   \<and> moment (client_metronome
        (snd (snd (tiktac quiet_readings scenario_c_manager computing_client)))) = 1
   \<and> fst (tiktac quiet_readings short_trace_manager computing_client) = Inl IndexError
   \<and> moment (client_metronome
        (snd (snd (tiktac quiet_readings short_trace_manager computing_client)))) = 1"
  by (simp add: tiktac_after_warmup tiktac_beyond_trace computing_client_def
      scenario_c_after_warmup tiktac_gpu_device_def quiet_readings_def
      used_computing make_room_computing cuda0_device_def)

text \<open>
  Scenario C after warmup, at moment 1 of 3: the headroom of moment 2 is 100 - 15 = 85.
  With 128 idle elements resident on cuda:0 \<^verbatim>\<open>make_room\<close> is asked for 43, selects
  chunk 1 and the call returns at moment 2; with no chunk resident it is not asked.
  The client of rank 1 holds 128 elements in use on cuda:1: with the process group
  initialised the call looks at cuda:1, \<^verbatim>\<open>make_room\<close> fails and the call raises,
  without it the call looks at cuda:0 and returns. A trace of one sample raises
  \<^verbatim>\<open>IndexError\<close>. In warmup the call records and leaves the metronome at moment 1.
\<close>

theorem tiktac_lookahead_witness:
  "\<not> is_warmup (client_metronome scenario_c_client)
   \<and> next_moment (client_metronome scenario_c_client) = 2
   \<and> get_chunk_memory_used (client_chunk_list scenario_c_client) cuda0_device = 128
   \<and> make_room (client_chunk_list scenario_c_client) (128 - 85 :: real) cuda0_device = Inr [1]
   \<and> fst (tiktac quiet_readings scenario_c_manager scenario_c_client) = Inr ()
   \<and> moment (client_metronome (snd (snd (tiktac quiet_readings scenario_c_manager scenario_c_client)))) = 2
   \<and> fst (tiktac quiet_readings scenario_c_manager empty_client) = Inr ()
   \<and> moment (client_metronome (snd (snd (tiktac quiet_readings scenario_c_manager empty_client)))) = 2
   \<and> tiktac dist_readings scenario_c_manager rank1_client
       = (Inl RuntimeError, scenario_c_manager, rank1_client)
   \<and> fst (tiktac quiet_readings scenario_c_manager rank1_client) = Inr ()
   \<and> moment (client_metronome (snd (snd (tiktac quiet_readings scenario_c_manager rank1_client)))) = 2
   \<and> tiktac quiet_readings short_trace_manager empty_client
       = (Inl IndexError, short_trace_manager, empty_client)
   \<and> fst (tiktac quiet_readings fresh_manager fresh_client) = Inr ()
   \<and> moment (client_metronome (snd (snd (tiktac quiet_readings fresh_manager fresh_client)))) = 1"
proof -
  have m: "client_metronome scenario_c_client = scenario_c_metronome"
    "client_metronome empty_client = scenario_c_metronome"
    "client_metronome rank1_client = scenario_c_metronome"
    "client_chunk_list scenario_c_client = two_gpu_chunks"
    "client_chunk_list empty_client = []"
    "client_chunk_list rank1_client = computing_chunks (Device ''cuda'' (Some 1))"
    "client_local_rank rank1_client = 1" "client_local_rank scenario_c_client = 0"
    "client_local_rank empty_client = 0"
    "dist_is_initialized dist_readings" "\<not> dist_is_initialized quiet_readings"
    by (simp_all add: scenario_c_client_def empty_client_def rank1_client_def
        dist_readings_def quiet_readings_def)
  have mr: "make_room two_gpu_chunks (128 - 85 :: real) cuda0_device = Inr [1]"
    using make_room_two_gpu_chunks by simp
  have e: "get_chunk_memory_used [] d = 0" for d
    by (simp add: get_chunk_memory_used_def)
  have t1: "tiktac quiet_readings scenario_c_manager scenario_c_client =
      (Inr (), scenario_c_manager,
       scenario_c_client\<lparr>client_metronome := metronome_tiktac scenario_c_metronome\<rparr>)"
    using tiktac_lookahead [of scenario_c_client scenario_c_manager quiet_readings]
    by (simp add: m scenario_c_after_warmup used_two_gpu_chunks make_room_two_gpu_chunks
        cuda0_device_def [symmetric])
  have t2: "tiktac quiet_readings scenario_c_manager empty_client =
      (Inr (), scenario_c_manager,
       empty_client\<lparr>client_metronome := metronome_tiktac scenario_c_metronome\<rparr>)"
    using tiktac_lookahead [of empty_client scenario_c_manager quiet_readings]
    by (simp add: m scenario_c_after_warmup e)
  have t3: "tiktac dist_readings scenario_c_manager rank1_client
       = (Inl RuntimeError, scenario_c_manager, rank1_client)"
    using tiktac_lookahead [of rank1_client scenario_c_manager dist_readings]
    by (simp add: m scenario_c_after_warmup used_computing make_room_computing)
  have t4: "tiktac quiet_readings scenario_c_manager rank1_client =
      (Inr (), scenario_c_manager,
       rank1_client\<lparr>client_metronome := metronome_tiktac scenario_c_metronome\<rparr>)"
    using tiktac_lookahead [of rank1_client scenario_c_manager quiet_readings]
    by (simp add: m scenario_c_after_warmup used_computing)
  have t5: "tiktac quiet_readings short_trace_manager empty_client
       = (Inl IndexError, short_trace_manager, empty_client)"
    using tiktac_lookahead [of empty_client short_trace_manager quiet_readings]
    by (simp add: m scenario_c_after_warmup)
  obtain r self' c' where t6: "tiktac quiet_readings fresh_manager fresh_client = (r, self', c')"
    by (cases "tiktac quiet_readings fresh_manager fresh_client") blast
  have r: "r = Inr ()"
    using t6 tiktac_warmup_step [of fresh_client fresh_manager quiet_readings]
    by (simp add: fresh_client_def fresh_manager_def warmup_metronome_def)
  have "moment (client_metronome c') = moment (client_metronome fresh_client) + 1"
    using tiktac_lookahead [of fresh_client fresh_manager quiet_readings] t6 r by blast
  then have t7: "moment (client_metronome c') = 1"
    by (simp add: fresh_client_def warmup_metronome_def)
  show ?thesis
    using t1 t2 t3 t4 t5 t6 r t7
    by (simp add: m scenario_c_after_warmup used_two_gpu_chunks make_room_two_gpu_chunks
        metronome_tiktac_def)
qed

lemma tiktac_warmup_appends:
  assumes "is_warmup (client_metronome c)"
  shows "gpu_sys_used_list (fst (snd (tiktac env self c))) = gpu_sys_used_list self @
            [max (max_mem_usage_period env) (get_sys_memory_used env (tiktac_gpu_device env c))
             - gpu_chunk_used_mem self]"
    and "cpu_sys_used_list (fst (snd (tiktac env self c))) = cpu_sys_used_list self @
            [get_sys_memory_used env (Device ''cpu'' (Some 0)) - cpu_chunk_used_mem self]"
  using assms by (simp_all add: tiktac_def Let_def)

text \<open>
  C6. During warmup every call of \<^verbatim>\<open>tiktac\<close> appends exactly one sample to the
  non-chunk trace of each device class: for the accelerator the observed usage (the
  larger of the peak over the period and the reading at the call, line 202) minus the
  accelerator chunk memory, for the host the reading minus the host chunk memory.
  When the accelerator trace held one sample for each moment that has passed (its
  length was the current moment), the trace is then one longer than the current
  moment, the assertion holds and the call returns, and after the metronome has
  advanced the trace again holds one sample per moment. Calling \<^verbatim>\<open>tiktac\<close> once per
  moment from an empty trace at moment 0 keeps that relation: every call of the run
  returns.
\<close>

theorem tiktac_warmup_records:
  "(is_warmup (client_metronome c) \<longrightarrow>
      gpu_sys_used_list (fst (snd (tiktac env self c))) = gpu_sys_used_list self @
         [max (max_mem_usage_period env) (get_sys_memory_used env (tiktac_gpu_device env c))
          - gpu_chunk_used_mem self]
      \<and> cpu_sys_used_list (fst (snd (tiktac env self c))) = cpu_sys_used_list self @
         [get_sys_memory_used env (Device ''cpu'' (Some 0)) - cpu_chunk_used_mem self])
   \<and> (is_warmup (client_metronome c)
      \<and> length (gpu_sys_used_list self) = moment (client_metronome c) \<longrightarrow>
    (\<exists>self' c'. tiktac env self c = (Inr (), self', c')
       \<and> length (gpu_sys_used_list self') = moment (client_metronome c) + 1
       \<and> is_warmup (client_metronome c')
       \<and> length (gpu_sys_used_list self') = moment (client_metronome c')))
   \<and> (is_warmup (client_metronome c0) \<and> gpu_sys_used_list self0 = []
        \<and> moment (client_metronome c0) = 0 \<longrightarrow>
      (\<exists>self' c'. tiktac_run envs self0 c0 = (Inr (), self', c')
         \<and> is_warmup (client_metronome c')
         \<and> length (gpu_sys_used_list self') = moment (client_metronome c')
         \<and> moment (client_metronome c') = length envs))"
proof (intro conjI impI)
  assume "is_warmup (client_metronome c)"
  then show "gpu_sys_used_list (fst (snd (tiktac env self c))) = gpu_sys_used_list self @
         [max (max_mem_usage_period env) (get_sys_memory_used env (tiktac_gpu_device env c))
          - gpu_chunk_used_mem self]"
    and "cpu_sys_used_list (fst (snd (tiktac env self c))) = cpu_sys_used_list self @
         [get_sys_memory_used env (Device ''cpu'' (Some 0)) - cpu_chunk_used_mem self]"
    by (rule tiktac_warmup_appends)+
next
  assume a: "is_warmup (client_metronome c)
               \<and> length (gpu_sys_used_list self) = moment (client_metronome c)"
  show "\<exists>self' c'. tiktac env self c = (Inr (), self', c')
       \<and> length (gpu_sys_used_list self') = moment (client_metronome c) + 1
       \<and> is_warmup (client_metronome c')
       \<and> length (gpu_sys_used_list self') = moment (client_metronome c')"
    using a tiktac_warmup_step [of c self env]
    by (simp add: metronome_tiktac_def)
next
  assume b: "is_warmup (client_metronome c0) \<and> gpu_sys_used_list self0 = []
               \<and> moment (client_metronome c0) = 0"
  show "\<exists>self' c'. tiktac_run envs self0 c0 = (Inr (), self', c')
         \<and> is_warmup (client_metronome c')
         \<and> length (gpu_sys_used_list self') = moment (client_metronome c')
         \<and> moment (client_metronome c') = length envs"
    using b tiktac_run_warmup [of c0 self0 envs] by simp
qed

text \<open>
  From the empty trace at moment 0, with 12 elements of accelerator chunks and 5 of
  host chunks: the first call records max 40 30 - 12 = 28 and 50 - 5 = 45, and three
  calls in a row leave three samples at moment 3.
\<close>

theorem tiktac_warmup_records_witness:
  "is_warmup (client_metronome fresh_client)
   \<and> length (gpu_sys_used_list fresh_manager) = moment (client_metronome fresh_client)
   \<and> fst (tiktac quiet_readings fresh_manager fresh_client) = Inr ()
   \<and> gpu_sys_used_list (fst (snd (tiktac quiet_readings fresh_manager fresh_client))) = [28]
   \<and> cpu_sys_used_list (fst (snd (tiktac quiet_readings fresh_manager fresh_client))) = [45]
   \<and> fst (tiktac_run [quiet_readings, quiet_readings, quiet_readings]
            fresh_manager fresh_client) = Inr ()
   \<and> gpu_sys_used_list (fst (snd (tiktac_run [quiet_readings, quiet_readings, quiet_readings]
            fresh_manager fresh_client))) = [28, 28, 28]
   \<and> moment (client_metronome (snd (snd (tiktac_run
            [quiet_readings, quiet_readings, quiet_readings] fresh_manager fresh_client)))) = 3"
  using tiktac_warmup_records [of fresh_client quiet_readings fresh_manager fresh_client
      fresh_manager "[quiet_readings, quiet_readings, quiet_readings]"]
  by (simp add: tiktac_def tiktac_gpu_device_def quiet_readings_def fresh_client_def
      fresh_manager_def warmup_metronome_def metronome_tiktac_def Let_def)

section \<open>Selecting and moving victims\<close>

lemma select_victims_subset:
  "select_victims cs need is = Some vs \<Longrightarrow> set vs \<subseteq> set is"
proof (induction "is" arbitrary: need vs)
  case Nil
  then show ?case by (simp split: if_splits)
next
  case (Cons i "is")
  show ?case
  proof (cases "need \<le> 0")
    case True
    with Cons.prems show ?thesis by simp
  next
    case False
    with Cons.prems obtain ws where
      ws: "select_victims cs (need - of_int (capacity (cs ! i))) is = Some ws" and vs: "vs = i # ws"
      by auto
    from Cons.IH [OF ws] vs show ?thesis by auto
  qed
qed

lemma set_candidates:
  "set (candidates cs d) =
     {i. i < length cs \<and> device (cs ! i) = d \<and> get_status (cs ! i) \<noteq> CHUNK_COMPUTE}"
  by (auto simp: candidates_def)

lemma make_room_victims:
  assumes "make_room cs need d = Inr vs" and "i \<in> set vs"
  shows "i < length cs \<and> device (cs ! i) = d \<and> get_status (cs ! i) \<noteq> CHUNK_COMPUTE"
proof -
  from assms(1) have "select_victims cs need (candidates cs d) = Some vs"
    by (auto simp: make_room_def split: option.splits)
  then have "set vs \<subseteq> set (candidates cs d)"
    by (rule select_victims_subset)
  with assms(2) show ?thesis
    by (auto simp: set_candidates)
qed

lemma make_room_error:
  "make_room cs need d = Inl e \<Longrightarrow> e = RuntimeError"
  by (auto simp: make_room_def split: option.splits)

lemma length_relocate [simp]: "length (relocate d ids cs) = length cs"
  by (simp add: relocate_def)

lemma nth_relocate:
  "i < length cs \<Longrightarrow>
   relocate d ids cs ! i = (if i \<in> set ids then (cs ! i)\<lparr>device := d\<rparr> else cs ! i)"
  by (simp add: relocate_def)

lemma relocate_Nil [simp]: "relocate d [] cs = cs"
  by (simp add: list_eq_iff_nth_eq nth_relocate)

lemma relocate_Cons:
  assumes "i < length cs"
  shows "relocate d (i # ids) cs = relocate d ids (cs[i := (cs ! i)\<lparr>device := d\<rparr>])"
  using assms
  by (auto simp: list_eq_iff_nth_eq nth_relocate nth_list_update)

lemma chunk_move_in_range:
  assumes "i < length (chunk_list s)"
  shows "\<exists>s'. chunk_move s i d = (Inr (), s')
     \<and> chunk_list s' = (chunk_list s)[i := (chunk_list s ! i)\<lparr>device := d\<rparr>]
     \<and> dict_tensor_id_chunk_id s' = dict_tensor_id_chunk_id s
     \<and> ps_id s' = ps_id s"
proof (cases "device (chunk_list s ! i) = d")
  case True
  have "(chunk_list s ! i)\<lparr>device := device (chunk_list s ! i)\<rparr> = chunk_list s ! i"
    by simp
  then have "(chunk_list s)[i := (chunk_list s ! i)\<lparr>device := d\<rparr>] = chunk_list s"
    unfolding True by simp
  with True assms show ?thesis
    by (simp add: chunk_move_def)
next
  case False
  with assms show ?thesis
    by (simp add: chunk_move_def move_def Let_def)
qed

lemma chunk_move_all_in_range:
  "\<forall>i \<in> set ids. i < length (chunk_list s) \<Longrightarrow>
   \<exists>s'. chunk_move_all s ids d = (Inr (), s')
     \<and> chunk_list s' = relocate d ids (chunk_list s)
     \<and> dict_tensor_id_chunk_id s' = dict_tensor_id_chunk_id s
     \<and> ps_id s' = ps_id s"
proof (induction ids arbitrary: s)
  case Nil
  then show ?case by simp
next
  case (Cons i ids)
  then have i: "i < length (chunk_list s)" by simp
  from chunk_move_in_range [OF i, of d] obtain s1 where
    s1: "chunk_move s i d = (Inr (), s1)"
      "chunk_list s1 = (chunk_list s)[i := (chunk_list s ! i)\<lparr>device := d\<rparr>]"
      "dict_tensor_id_chunk_id s1 = dict_tensor_id_chunk_id s" "ps_id s1 = ps_id s"
    by blast
  have "\<forall>j \<in> set ids. j < length (chunk_list s1)"
    using Cons.prems s1(2) by simp
  from Cons.IH [OF this] obtain s' where
    "chunk_move_all s1 ids d = (Inr (), s')" "chunk_list s' = relocate d ids (chunk_list s1)"
    "dict_tensor_id_chunk_id s' = dict_tensor_id_chunk_id s1" "ps_id s' = ps_id s1"
    by blast
  then show ?case
    using s1 i by (simp add: relocate_Cons)
qed

section \<open>Preparing a device\<close>

lemma prepare_device_unfold:
  "prepare_device s t need =
     (if max_mem (ps_manager s) (dev_type t) (dev_index t) < need then (Inl RuntimeError, s)
      else if need \<le> available_mem (ps_manager s) (dev_type t) (dev_index t) then (Inr (), s)
      else (case make_room (chunk_list s)
                   (need - available_mem (ps_manager s) (dev_type t) (dev_index t)) t of
              Inl e \<Rightarrow> (Inl e, s)
            | Inr moved_list \<Rightarrow> chunk_move_all s moved_list (new_device_of t)))"
  by (simp add: prepare_device_def Let_def)

lemma prepare_device_moves:
  assumes "make_room (chunk_list s) need' t = Inr moved_list"
  shows "\<exists>s'. chunk_move_all s moved_list d = (Inr (), s')
     \<and> chunk_list s' = relocate d moved_list (chunk_list s)
     \<and> dict_tensor_id_chunk_id s' = dict_tensor_id_chunk_id s
     \<and> ps_id s' = ps_id s"
proof -
  have "\<forall>i \<in> set moved_list. i < length (chunk_list s)"
    using make_room_victims [OF assms] by blast
  then show ?thesis
    by (rule chunk_move_all_in_range)
qed

text \<open>
  C1. When the need does not exceed the total budget of the target device:
  if the memory available there is at least the need, \<^verbatim>\<open>prepare_device\<close> returns
  and leaves the client as it was; otherwise it asks \<^verbatim>\<open>make_room\<close> for exactly the
  need minus the available memory on the target device, and when \<^verbatim>\<open>make_room\<close>
  returns its victims, every one of them is moved to the alternate device (cpu when
  the target is of type cuda, cuda:0 otherwise) and no other chunk is changed.
\<close>

theorem prepare_device_makes_room:
  assumes "need_size \<le> max_mem (ps_manager self) (dev_type target) (dev_index target)"
  shows
   "(need_size \<le> available_mem (ps_manager self) (dev_type target) (dev_index target) \<longrightarrow>
       prepare_device self target need_size = (Inr (), self))
    \<and> (available_mem (ps_manager self) (dev_type target) (dev_index target) < need_size \<longrightarrow>
        (case make_room (chunk_list self)
                (need_size - available_mem (ps_manager self) (dev_type target) (dev_index target))
                target of
           Inl e \<Rightarrow> prepare_device self target need_size = (Inl e, self)
         | Inr moved_list \<Rightarrow>
             (\<exists>self'. prepare_device self target need_size = (Inr (), self')
                \<and> chunk_list self' = relocate (new_device_of target) moved_list (chunk_list self)
                \<and> (\<forall>idx \<in> set moved_list.
                      device (chunk_list self' ! idx) = new_device_of target))))
    \<and> new_device_of target = (if dev_type target = ''cuda'' then cpu_device else cuda0_device)"
proof (intro conjI impI)
  assume "need_size \<le> available_mem (ps_manager self) (dev_type target) (dev_index target)"
  with assms show "prepare_device self target need_size = (Inr (), self)"
    by (simp add: prepare_device_unfold)
next
  let ?need = "need_size - available_mem (ps_manager self) (dev_type target) (dev_index target)"
  assume less: "available_mem (ps_manager self) (dev_type target) (dev_index target) < need_size"
  show "case make_room (chunk_list self) ?need target of
           Inl e \<Rightarrow> prepare_device self target need_size = (Inl e, self)
         | Inr moved_list \<Rightarrow>
             (\<exists>self'. prepare_device self target need_size = (Inr (), self')
                \<and> chunk_list self' = relocate (new_device_of target) moved_list (chunk_list self)
                \<and> (\<forall>idx \<in> set moved_list.
                      device (chunk_list self' ! idx) = new_device_of target))"
  proof (cases "make_room (chunk_list self) ?need target")
    case (Inl e)
    with assms less show ?thesis
      by (simp add: prepare_device_unfold)
  next
    case (Inr moved_list)
    from prepare_device_moves [OF Inr, of "new_device_of target"] obtain self' where
      m: "chunk_move_all self moved_list (new_device_of target) = (Inr (), self')"
      and c: "chunk_list self' = relocate (new_device_of target) moved_list (chunk_list self)"
      by blast
    have "\<forall>idx \<in> set moved_list. device (chunk_list self' ! idx) = new_device_of target"
      using make_room_victims [OF Inr] c by (simp add: nth_relocate)
    with Inr m c assms less show ?thesis
      by (simp add: prepare_device_unfold)
  qed
next
  show "new_device_of target = (if dev_type target = ''cuda'' then cpu_device else cuda0_device)"
    by (simp add: new_device_of_def)
qed

lemma candidates_eviction: "candidates (chunk_list eviction_client) cuda0_device = [1, 0]"
  by (simp add: eviction_client_def candidates_def two_gpu_chunks_def cuda0_device_def get_status_def upt_rec)

lemma make_room_eviction: "make_room (chunk_list eviction_client) (64::int) cuda0_device = Inr [1]"
  by (simp add: make_room_def candidates_eviction) (simp add: eviction_client_def two_gpu_chunks_def)

text \<open>
  The accelerator is full (budget 128, 128 in use) and 64 elements are needed: the
  deficit is 64, \<^verbatim>\<open>make_room\<close> selects chunk 1, the least recently touched, and it
  ends on the cpu while chunk 0 stays. A need of 0 changes nothing.
\<close>

theorem prepare_device_makes_room_witness:
  "64 \<le> max_mem (ps_manager eviction_client) ''cuda'' (Some 0)
   \<and> available_mem (ps_manager eviction_client) ''cuda'' (Some 0) = 0
   \<and> make_room (chunk_list eviction_client) (64 - 0 :: int) cuda0_device = Inr [1]
   \<and> fst (prepare_device eviction_client cuda0_device 64) = Inr ()
   \<and> map device (chunk_list (snd (prepare_device eviction_client cuda0_device 64)))
       = [cuda0_device, cpu_device]
   \<and> prepare_device eviction_client cuda0_device 0 = (Inr (), eviction_client)"
  using prepare_device_makes_room [of 64 eviction_client cuda0_device]
    prepare_device_makes_room [of 0 eviction_client cuda0_device]
    make_room_eviction
  apply (simp add: max_mem_def available_mem_def)
  apply (simp add: eviction_client_def cuda0_device_def)
  apply (auto simp: relocate_def two_gpu_chunks_def cuda0_device_def new_device_of_def upt_rec)
  done

lemma prepare_device_error:
  assumes "prepare_device s t need = (Inl e, s')"
  shows "s' = s \<and> e = RuntimeError
     \<and> (max_mem (ps_manager s) (dev_type t) (dev_index t) < need
        \<or> (available_mem (ps_manager s) (dev_type t) (dev_index t) < need
           \<and> make_room (chunk_list s)
                (need - available_mem (ps_manager s) (dev_type t) (dev_index t)) t
              = Inl RuntimeError))"
proof (cases "max_mem (ps_manager s) (dev_type t) (dev_index t) < need")
  case True
  with assms show ?thesis by (simp add: prepare_device_unfold)
next
  case False
  note cap = this
  show ?thesis
  proof (cases "need \<le> available_mem (ps_manager s) (dev_type t) (dev_index t)")
    case True
    with cap assms show ?thesis by (simp add: prepare_device_unfold)
  next
    case False
    show ?thesis
    proof (cases "make_room (chunk_list s)
                (need - available_mem (ps_manager s) (dev_type t) (dev_index t)) t")
      case (Inl e')
      with cap False assms make_room_error [OF Inl] show ?thesis
        by (simp add: prepare_device_unfold)
    next
      case (Inr moved_list)
      from prepare_device_moves [OF Inr, of "new_device_of t"] cap False assms Inr
      show ?thesis
        by (auto simp: prepare_device_unfold)
    qed
  qed
qed

text \<open>
  C2, amended. \<^verbatim>\<open>prepare_device\<close> raises whenever the need exceeds the total
  budget of the device, before any eviction or migration. It raises in no other case
  but one: the need is within the budget, the available memory is short of it, and
  \<^verbatim>\<open>make_room\<close> fails to select victims for the deficit. Whenever it raises, no
  chunk has been moved and the client, chunk list and budget totals included, is as
  it was before the call.
\<close>

theorem prepare_device_capacity_error:
  "(max_mem (ps_manager self) (dev_type target) (dev_index target) < need_size \<longrightarrow>
      prepare_device self target need_size = (Inl RuntimeError, self))
   \<and> (\<forall>e self'. prepare_device self target need_size = (Inl e, self') \<longrightarrow>
         self' = self \<and> e = RuntimeError
         \<and> (max_mem (ps_manager self) (dev_type target) (dev_index target) < need_size
            \<or> (available_mem (ps_manager self) (dev_type target) (dev_index target) < need_size
               \<and> make_room (chunk_list self)
                    (need_size
                       - available_mem (ps_manager self) (dev_type target) (dev_index target))
                    target
                  = Inl RuntimeError)))"
proof (intro conjI impI allI)
  assume "max_mem (ps_manager self) (dev_type target) (dev_index target) < need_size"
  then show "prepare_device self target need_size = (Inl RuntimeError, self)"
    by (simp add: prepare_device_unfold)
next
  fix e self'
  assume "prepare_device self target need_size = (Inl e, self')"
  from prepare_device_error [OF this]
  show "self' = self" and "e = RuntimeError"
    and "max_mem (ps_manager self) (dev_type target) (dev_index target) < need_size
            \<or> (available_mem (ps_manager self) (dev_type target) (dev_index target) < need_size
               \<and> make_room (chunk_list self)
                    (need_size
                       - available_mem (ps_manager self) (dev_type target) (dev_index target))
                    target
                  = Inl RuntimeError)"
    by blast+
qed

lemma candidates_busy: "candidates (chunk_list busy_client) cuda0_device = []"
  by (simp add: busy_client_def candidates_def cuda0_device_def get_status_def upt_rec)

lemma make_room_busy: "make_room (chunk_list busy_client) (28::int) cuda0_device = Inl RuntimeError"
  by (simp add: make_room_def candidates_busy)

lemma busy_budget:
  "max_mem (ps_manager busy_client) (dev_type cuda0_device) (dev_index cuda0_device) = 100"
  "available_mem (ps_manager busy_client) (dev_type cuda0_device) (dev_index cuda0_device) = 36"
  by (simp_all add: max_mem_def available_mem_def busy_client_def cuda0_device_def)

text \<open>
  C2, as the claim states it, fails in one direction: \<^verbatim>\<open>prepare_device\<close> also
  raises when the need is within the total budget. Here the budget is 100 and 64 are
  needed, 36 are available, and the only chunk on the accelerator is in use, so
  \<^verbatim>\<open>make_room\<close> cannot free the missing 28 and its failure propagates.
\<close>

theorem prepare_device_raises_within_capacity_counterexample:
  "max_mem (ps_manager busy_client) (dev_type cuda0_device) (dev_index cuda0_device) = 100
   \<and> \<not> max_mem (ps_manager busy_client) (dev_type cuda0_device) (dev_index cuda0_device) < 64
   \<and> available_mem (ps_manager busy_client) (dev_type cuda0_device) (dev_index cuda0_device) = 36
   \<and> prepare_device busy_client cuda0_device 64 = (Inl RuntimeError, busy_client)"
  by (simp add: prepare_device_unfold busy_budget make_room_busy)

text \<open>
  The busy client: a need of 101 exceeds the budget of 100 and raises at once; a need
  of 64 raises through \<^verbatim>\<open>make_room\<close>; both leave the client unchanged.
\<close>

theorem prepare_device_capacity_error_witness:
  "max_mem (ps_manager busy_client) (dev_type cuda0_device) (dev_index cuda0_device) < 101
   \<and> prepare_device busy_client cuda0_device 101 = (Inl RuntimeError, busy_client)
   \<and> fst (prepare_device busy_client cuda0_device 64) = Inl RuntimeError
   \<and> snd (prepare_device busy_client cuda0_device 64) = busy_client
   \<and> available_mem (ps_manager busy_client) (dev_type cuda0_device) (dev_index cuda0_device) < 64
   \<and> make_room (chunk_list busy_client) (64 - 36 :: int) cuda0_device = Inl RuntimeError"
proof -
  have a: "max_mem (ps_manager busy_client) (dev_type cuda0_device) (dev_index cuda0_device) < 101"
    by (simp add: busy_budget)
  have b: "prepare_device busy_client cuda0_device 101 = (Inl RuntimeError, busy_client)"
    using prepare_device_capacity_error [of busy_client cuda0_device 101] a by blast
  obtain r s' where c: "prepare_device busy_client cuda0_device 64 = (r, s')"
    by (cases "prepare_device busy_client cuda0_device 64") blast
  have r: "r = Inl RuntimeError"
    using c by (simp add: prepare_device_unfold busy_budget make_room_busy)
  have "s' = busy_client"
    using prepare_device_capacity_error [of busy_client cuda0_device 64] c r by blast
  with a b c r show ?thesis
    by (simp add: busy_budget make_room_busy)
qed

section \<open>Access and release\<close>

lemma set_status_twice [simp]:
  "set_status t st (set_status t st infos) = set_status t st infos"
  by (induction infos) (auto simp: set_status_def)

lemma status_of_set_status:
  "status_of t infos \<noteq> None \<Longrightarrow> status_of t (set_status t st infos) = Some st"
  by (induction infos) (auto simp: set_status_def)

lemma status_of_set_status_other:
  "t' \<noteq> t \<Longrightarrow> status_of t' (set_status t st infos) = status_of t' infos"
  by (induction infos) (auto simp: set_status_def)


lemma map_update_same:
  assumes "i < length xs" and "f y = f (xs ! i)"
  shows "map f (xs[i := y]) = map f xs"
  using assms by (simp add: list_eq_iff_nth_eq nth_list_update)



text \<open>
  C10. \<^verbatim>\<open>access\<close> on a handle that is not a ps param (it has no \<^verbatim>\<open>ps_data_id\<close>,
  so it was never registered) raises an error, the \<^verbatim>\<open>TypeError\<close> that line 74
  produces by raising a string, and leaves the whole client, chunks and statuses
  included, unchanged.
\<close>

theorem access_unregistered:
  assumes "\<not> is_ps_param param"
  shows "access self now param access_type = (Inl TypeError, self)"
  using assms by (simp add: access_def is_ps_param_def)

text \<open>The unconverted parameter, accessed for its data and for its gradient.\<close>

theorem access_unregistered_witness:
  "\<not> is_ps_param plain_param
   \<and> access swap_client 9 plain_param DATA = (Inl TypeError, swap_client)
   \<and> access swap_client 9 plain_param GRAD = (Inl TypeError, swap_client)"
  using access_unregistered [of plain_param swap_client 9 DATA]
    access_unregistered [of plain_param swap_client 9 GRAD]
  by (simp add: is_ps_param_def plain_param_def)

lemma registered_handle:
  "registered swap_client handle_param DATA" "registered swap_client handle_param GRAD"
  by (simp_all add: registered_def handle_param_def plain_param_def swap_client_def tensor_of_def)


lemma relocate_fields:
  assumes "i < length cs"
  shows "tensor_info_list (relocate d ids cs ! i) = tensor_info_list (cs ! i)"
    and "capacity (relocate d ids cs ! i) = capacity (cs ! i)"
    and "timestamp (relocate d ids cs ! i) = timestamp (cs ! i)"
  using assms by (simp_all add: nth_relocate)

lemma prepare_device_returns:
  assumes "prepare_device s t need = (Inr u, s1)"
  shows "length (chunk_list s1) = length (chunk_list s)"
    and "dict_tensor_id_chunk_id s1 = dict_tensor_id_chunk_id s"
    and "i < length (chunk_list s) \<Longrightarrow>
           tensor_info_list (chunk_list s1 ! i) = tensor_info_list (chunk_list s ! i)"
    and "i < length (chunk_list s) \<Longrightarrow> capacity (chunk_list s1 ! i) = capacity (chunk_list s ! i)"
    and "i < length (chunk_list s) \<Longrightarrow> timestamp (chunk_list s1 ! i) = timestamp (chunk_list s ! i)"
proof -
  have "s1 = s \<or> (\<exists>ids d. chunk_list s1 = relocate d ids (chunk_list s)
                      \<and> dict_tensor_id_chunk_id s1 = dict_tensor_id_chunk_id s)"
  proof (cases "make_room (chunk_list s)
                  (need - available_mem (ps_manager s) (dev_type t) (dev_index t)) t")
    case (Inl e)
    with assms show ?thesis
      by (auto simp: prepare_device_unfold split: if_splits)
  next
    case (Inr moved_list)
    from prepare_device_moves [OF Inr, of "new_device_of t"] assms Inr show ?thesis
      by (auto simp: prepare_device_unfold split: if_splits)
  qed
  then show "length (chunk_list s1) = length (chunk_list s)"
    and "dict_tensor_id_chunk_id s1 = dict_tensor_id_chunk_id s"
    and "i < length (chunk_list s) \<Longrightarrow>
           tensor_info_list (chunk_list s1 ! i) = tensor_info_list (chunk_list s ! i)"
    and "i < length (chunk_list s) \<Longrightarrow> capacity (chunk_list s1 ! i) = capacity (chunk_list s ! i)"
    and "i < length (chunk_list s) \<Longrightarrow> timestamp (chunk_list s1 ! i) = timestamp (chunk_list s ! i)"
    by (auto simp: relocate_fields)
qed

lemma access_resident:
  assumes "ps param = Some a"
    and "dict_tensor_id_chunk_id self (tensor_of a access_type) = Some chunk_id"
    and "chunk_id < length (chunk_list self)"
    and "device (chunk_list self ! chunk_id) = compute_device a"
    and "access_type = DATA \<or> param_has_grad param"
  shows "access self now param access_type =
     (Inr (),
      self\<lparr>chunk_list := (chunk_list self)[chunk_id :=
         (chunk_list self ! chunk_id)\<lparr>timestamp := now,
            tensor_info_list := set_status (tensor_of a access_type) COMPUTE
              (tensor_info_list (chunk_list self ! chunk_id))\<rparr>]\<rparr>)"
  using assms by (auto simp: access_def Let_def touch_def)

lemma access_elsewhere_error:
  assumes "ps param = Some a"
    and "dict_tensor_id_chunk_id self (tensor_of a access_type) = Some chunk_id"
    and "chunk_id < length (chunk_list self)"
    and "device (chunk_list self ! chunk_id) \<noteq> compute_device a"
    and "prepare_device self (compute_device a) (capacity (chunk_list self ! chunk_id)) = (Inl e, s1)"
  shows "access self now param access_type = (Inl e, s1)"
  using assms by (simp add: access_def Let_def)

lemma access_elsewhere:
  assumes "ps param = Some a"
    and "dict_tensor_id_chunk_id self (tensor_of a access_type) = Some chunk_id"
    and "chunk_id < length (chunk_list self)"
    and "device (chunk_list self ! chunk_id) \<noteq> compute_device a"
    and "prepare_device self (compute_device a) (capacity (chunk_list self ! chunk_id)) = (Inr u, s1)"
    and "access_type = DATA \<or> param_has_grad param"
  shows "\<exists>s2. chunk_move s1 chunk_id (compute_device a) = (Inr (), s2)
     \<and> chunk_list s2 = (chunk_list s1)[chunk_id :=
          (chunk_list s1 ! chunk_id)\<lparr>device := compute_device a\<rparr>]
     \<and> dict_tensor_id_chunk_id s2 = dict_tensor_id_chunk_id self
     \<and> access self now param access_type =
         (Inr (),
          s2\<lparr>chunk_list := (chunk_list s2)[chunk_id :=
             (chunk_list s2 ! chunk_id)\<lparr>timestamp := now,
                tensor_info_list := set_status (tensor_of a access_type) COMPUTE
                  (tensor_info_list (chunk_list s2 ! chunk_id))\<rparr>]\<rparr>)"
proof -
  have len1: "chunk_id < length (chunk_list s1)"
    using prepare_device_returns(1) [OF assms(5)] assms(3) by simp
  from chunk_move_in_range [OF len1, of "compute_device a"] obtain s2 where
    m: "chunk_move s1 chunk_id (compute_device a) = (Inr (), s2)"
    and c: "chunk_list s2 = (chunk_list s1)[chunk_id :=
          (chunk_list s1 ! chunk_id)\<lparr>device := compute_device a\<rparr>]"
    and d: "dict_tensor_id_chunk_id s2 = dict_tensor_id_chunk_id s1"
    by blast
  have dev: "device (chunk_list s2 ! chunk_id) = compute_device a"
    using c len1 by simp
  have "access self now param access_type =
         (Inr (),
          s2\<lparr>chunk_list := (chunk_list s2)[chunk_id :=
             (chunk_list s2 ! chunk_id)\<lparr>timestamp := now,
                tensor_info_list := set_status (tensor_of a access_type) COMPUTE
                  (tensor_info_list (chunk_list s2 ! chunk_id))\<rparr>]\<rparr>)"
    using assms m dev by (auto simp: access_def Let_def touch_def)
  with m c d prepare_device_returns(2) [OF assms(5)] show ?thesis
    by auto
qed

lemma access_without_grad:
  assumes "ps param = Some a"
    and "dict_tensor_id_chunk_id self (tensor_of a access_type) = Some chunk_id"
    and "chunk_id < length (chunk_list self)"
    and "access_type = GRAD" and "\<not> param_has_grad param"
  shows "fst (access self now param access_type) \<noteq> Inr ()"
    and "device (chunk_list self ! chunk_id) = compute_device a \<Longrightarrow>
           snd (access self now param access_type) = self"
    and "device (chunk_list self ! chunk_id) \<noteq> compute_device a \<Longrightarrow>
           prepare_device self (compute_device a) (capacity (chunk_list self ! chunk_id))
             = (Inl e, s1) \<Longrightarrow>
           snd (access self now param access_type) = s1"
    and "device (chunk_list self ! chunk_id) \<noteq> compute_device a \<Longrightarrow>
           prepare_device self (compute_device a) (capacity (chunk_list self ! chunk_id))
             = (Inr u, s1) \<Longrightarrow>
           snd (access self now param access_type)
             = snd (chunk_move s1 chunk_id (compute_device a))"
  using assms
  by (auto simp: access_def Let_def split: prod.splits sum.splits)

text \<open>
  The effect of \<^verbatim>\<open>access\<close> on a registered tensor handle, for the calls that
  return: whenever \<^verbatim>\<open>access\<close> returns, the tensor's
  record has status COMPUTE (and the other records of the chunk are as before), the
  owning chunk carries the time of the call as its touch time, and the owning chunk
  stands on the handle's compute device, still bound to the tensor. When the chunk
  stood there already, no chunk changed its device and the budget totals are as
  before; when it stood elsewhere, \<^verbatim>\<open>prepare_device\<close> returned for the compute
  device and the chunk's capacity before the chunk was migrated. \<^verbatim>\<open>access\<close> does
  return when the chunk stands on the compute device or \<^verbatim>\<open>prepare_device\<close> returns,
  provided the access is to the data or the parameter carries a gradient.
\<close>

theorem access_compute:
  assumes "registered self param access_type"
    and "ps param = Some a"
    and "dict_tensor_id_chunk_id self (tensor_of a access_type) = Some chunk_id"
  shows
   "(\<forall>self'. access self now param access_type = (Inr (), self') \<longrightarrow>
        status_of (tensor_of a access_type) (tensor_info_list (chunk_list self' ! chunk_id))
          = Some COMPUTE
      \<and> tensor_info_list (chunk_list self' ! chunk_id)
          = set_status (tensor_of a access_type) COMPUTE
              (tensor_info_list (chunk_list self ! chunk_id))
      \<and> timestamp (chunk_list self' ! chunk_id) = now
      \<and> device (chunk_list self' ! chunk_id) = compute_device a
      \<and> capacity (chunk_list self' ! chunk_id) = capacity (chunk_list self ! chunk_id)
      \<and> dict_tensor_id_chunk_id self' = dict_tensor_id_chunk_id self
      \<and> (device (chunk_list self ! chunk_id) = compute_device a \<longrightarrow>
            map device (chunk_list self') = map device (chunk_list self)
            \<and> ps_manager self' = ps_manager self)
      \<and> (device (chunk_list self ! chunk_id) \<noteq> compute_device a \<longrightarrow>
            fst (prepare_device self (compute_device a) (capacity (chunk_list self ! chunk_id)))
              = Inr ()))
    \<and> ((access_type = DATA \<or> param_has_grad param)
        \<and> (device (chunk_list self ! chunk_id) = compute_device a
           \<or> fst (prepare_device self (compute_device a) (capacity (chunk_list self ! chunk_id)))
                = Inr ())
        \<longrightarrow> fst (access self now param access_type) = Inr ())"
proof -
  let ?t = "tensor_of a access_type"
  let ?cd = "compute_device a"
  let ?c = "chunk_list self ! chunk_id"
  from assms have len: "chunk_id < length (chunk_list self)"
    and rec: "status_of ?t (tensor_info_list ?c) \<noteq> None"
    by (simp_all add: registered_def)
  show ?thesis
  proof (cases "access_type = DATA \<or> param_has_grad param")
    case False
    then have g: "access_type = GRAD" "\<not> param_has_grad param"
      by (cases access_type; simp)+
    from access_without_grad(1) [OF assms(2,3) len g, where now = now] False show ?thesis
      by auto
  next
    case True
    note ok = this
    show ?thesis
  proof (cases "device ?c = ?cd")
    case True
    note acc = access_resident [OF assms(2,3) len True ok, of now]
    have "map device ((chunk_list self)[chunk_id := ?c\<lparr>timestamp := now,
            tensor_info_list := set_status ?t COMPUTE (tensor_info_list ?c)\<rparr>])
          = map device (chunk_list self)"
      using len by (simp add: map_update_same)
    then show ?thesis
      using True len rec unfolding acc by (simp add: status_of_set_status)
  next
    case False
    obtain r s1 where p: "prepare_device self ?cd (capacity ?c) = (r, s1)"
      by (cases "prepare_device self ?cd (capacity ?c)") blast
    show ?thesis
    proof (cases r)
      case (Inl e)
      from access_elsewhere_error [OF assms(2,3) len False p [unfolded Inl], of now]
      show ?thesis
        using False p Inl by simp
    next
      case (Inr u)
      note ret = prepare_device_returns [OF p [unfolded Inr]]
      from access_elsewhere [OF assms(2,3) len False p [unfolded Inr] ok, of now] obtain s2 where
        c: "chunk_list s2 = (chunk_list s1)[chunk_id := (chunk_list s1 ! chunk_id)\<lparr>device := ?cd\<rparr>]"
        and d: "dict_tensor_id_chunk_id s2 = dict_tensor_id_chunk_id self"
        and acc: "access self now param access_type =
           (Inr (),
            s2\<lparr>chunk_list := (chunk_list s2)[chunk_id :=
               (chunk_list s2 ! chunk_id)\<lparr>timestamp := now,
                  tensor_info_list := set_status ?t COMPUTE
                    (tensor_info_list (chunk_list s2 ! chunk_id))\<rparr>]\<rparr>)"
        by blast
      have len1: "chunk_id < length (chunk_list s1)"
        using ret(1) len by simp
      have len2: "chunk_id < length (chunk_list s2)"
        using c len1 by simp
      have til: "tensor_info_list (chunk_list s2 ! chunk_id) = tensor_info_list ?c"
        using c len1 ret(3) [OF len] by simp
      have cap: "capacity (chunk_list s2 ! chunk_id) = capacity ?c"
        using c len1 ret(4) [OF len] by simp
      have dev: "device (chunk_list s2 ! chunk_id) = ?cd"
        using c len1 by simp
      show ?thesis
        unfolding acc using False p Inr len2 til cap dev d rec
        by (simp add: status_of_set_status)
    qed
  qed
  qed
qed

lemma candidates_swap: "candidates (chunk_list swap_client) cuda0_device = [0]"
  by (simp add: swap_client_def candidates_def cuda0_device_def cpu_device_def get_status_def upt_rec)

lemma make_room_swap: "make_room (chunk_list swap_client) (64::int) cuda0_device = Inr [0]"
  by (simp add: make_room_def candidates_swap) (simp add: swap_client_def)

lemma swap_budget:
  "max_mem (ps_manager swap_client) (dev_type cuda0_device) (dev_index cuda0_device) = 64"
  "available_mem (ps_manager swap_client) (dev_type cuda0_device) (dev_index cuda0_device) = 0"
  by (simp_all add: max_mem_def available_mem_def swap_client_def cuda0_device_def)

lemma swap_chunk1:
  "capacity (chunk_list swap_client ! 1) = 64" "device (chunk_list swap_client ! 1) = cpu_device"
  "length (chunk_list swap_client) = 2"
  by (simp_all add: swap_client_def)

lemma prepare_swap:
  "fst (prepare_device swap_client cuda0_device 64) = Inr ()"
  "map device (chunk_list (snd (prepare_device swap_client cuda0_device 64)))
     = [cpu_device, cpu_device]"
proof -
  from prepare_device_moves [OF make_room_swap, of "new_device_of cuda0_device"] obtain s' where
    m: "chunk_move_all swap_client [0] (new_device_of cuda0_device) = (Inr (), s')"
    and c: "chunk_list s' = relocate (new_device_of cuda0_device) [0] (chunk_list swap_client)"
    by blast
  have p: "prepare_device swap_client cuda0_device 64 = (Inr (), s')"
    by (simp add: prepare_device_unfold swap_budget make_room_swap m del: chunk_move_all.simps)
  show "fst (prepare_device swap_client cuda0_device 64) = Inr ()"
    by (simp add: p)
  show "map device (chunk_list (snd (prepare_device swap_client cuda0_device 64)))
     = [cpu_device, cpu_device]"
    by (simp add: p c) (simp add: relocate_def swap_client_def new_device_of_def cuda0_device_def upt_rec)
qed

text \<open>
  The handle's data tensor (id 2) lives in chunk 1 on the cpu and is to be computed
  on cuda:0, which chunk 0 fills. \<^verbatim>\<open>access\<close> at time 9 makes room, migrates chunk 1
  to cuda:0, stamps it with 9 and leaves the record COMPUTE.
\<close>

theorem access_compute_witness:
  "registered swap_client handle_param DATA
   \<and> device (chunk_list swap_client ! 1) = cpu_device
   \<and> compute_device (the (ps handle_param)) = cuda0_device
   \<and> fst (prepare_device swap_client cuda0_device 64) = Inr ()
   \<and> fst (access swap_client 9 handle_param DATA) = Inr ()
   \<and> status_of 2 (tensor_info_list (chunk_list (snd (access swap_client 9 handle_param DATA)) ! 1))
       = Some COMPUTE
   \<and> timestamp (chunk_list (snd (access swap_client 9 handle_param DATA)) ! 1) = 9
   \<and> device (chunk_list (snd (access swap_client 9 handle_param DATA)) ! 1) = cuda0_device"
proof -
  let ?a = "\<lparr>ps_data_id = 2, ps_grad_id = 3, compute_device = cuda0_device\<rparr>"
  have p: "ps handle_param = Some ?a"
    by (simp add: handle_param_def plain_param_def)
  have d: "dict_tensor_id_chunk_id swap_client (tensor_of ?a DATA) = Some 1"
    by (simp add: swap_client_def tensor_of_def)
  obtain r s' where acc: "access swap_client 9 handle_param DATA = (r, s')"
    by (cases "access swap_client 9 handle_param DATA") blast
  note th = access_compute [OF registered_handle(1) p d, of 9]
  have ok: "r = Inr ()"
    using th acc prepare_swap(1) swap_chunk1 by simp
  from th acc ok have
    "status_of (tensor_of ?a DATA) (tensor_info_list (chunk_list s' ! 1)) = Some COMPUTE"
    "timestamp (chunk_list s' ! 1) = 9" "device (chunk_list s' ! 1) = compute_device ?a"
    by blast+
  then show ?thesis
    using registered_handle(1) p acc ok prepare_swap(1) swap_chunk1
    by (simp add: tensor_of_def)
qed

section \<open>The binding of tensor ids to chunks\<close>

lemma dict_chunk_move:
  "dict_tensor_id_chunk_id (snd (chunk_move s i d)) = dict_tensor_id_chunk_id s"
  by (simp add: chunk_move_def move_def Let_def)

lemma dict_prepare_device:
  "dict_tensor_id_chunk_id (snd (prepare_device s t need)) = dict_tensor_id_chunk_id s"
proof (cases "prepare_device s t need")
  case (Pair r s')
  show ?thesis
  proof (cases r)
    case (Inl e)
    with Pair prepare_device_error [of s t need e s'] show ?thesis by simp
  next
    case (Inr u)
    with Pair prepare_device_returns(2) [of s t need u s'] show ?thesis by simp
  qed
qed

lemma dict_release:
  "dict_tensor_id_chunk_id (snd (release s p k)) = dict_tensor_id_chunk_id s"
  by (simp add: release_def Let_def split: option.splits)

lemma dict_access:
  "dict_tensor_id_chunk_id (snd (access s now p k)) = dict_tensor_id_chunk_id s"
proof (cases "ps p")
  case None
  then show ?thesis by (simp add: access_def)
next
  case (Some a)
  show ?thesis
  proof (cases "dict_tensor_id_chunk_id s (tensor_of a k)")
    case None
    with Some show ?thesis by (simp add: access_def)
  next
    case (Some cid)
    note d = this
    show ?thesis
    proof (cases "cid < length (chunk_list s)")
      case False
      with \<open>ps p = Some a\<close> d show ?thesis by (simp add: access_def)
    next
      case True
      note len = this
      show ?thesis
      proof (cases "k = DATA \<or> param_has_grad p")
        case False
        then have g: "k = GRAD" "\<not> param_has_grad p"
          by (cases k; simp)+
        note w = access_without_grad [OF \<open>ps p = Some a\<close> d len g, where now = now]
        show ?thesis
        proof (cases "device (chunk_list s ! cid) = compute_device a")
          case True
          with w(2) show ?thesis by simp
        next
          case False
          obtain r s1 where
            p: "prepare_device s (compute_device a) (capacity (chunk_list s ! cid)) = (r, s1)"
            by (cases "prepare_device s (compute_device a) (capacity (chunk_list s ! cid))") blast
          have d1: "dict_tensor_id_chunk_id s1 = dict_tensor_id_chunk_id s"
            using dict_prepare_device [of s "compute_device a" "capacity (chunk_list s ! cid)"] p
            by simp
          show ?thesis
          proof (cases r)
            case (Inl e)
            from w(3) [OF False p [unfolded Inl]] d1 show ?thesis by simp
          next
            case (Inr u)
            from w(4) [OF False p [unfolded Inr]] d1 show ?thesis
              by (simp add: dict_chunk_move)
          qed
        qed
      next
        case True
        note ok = this
        show ?thesis
      proof (cases "device (chunk_list s ! cid) = compute_device a")
        case True
        show ?thesis
          unfolding access_resident [OF \<open>ps p = Some a\<close> d len True ok] by simp
      next
        case False
        obtain r s1 where p: "prepare_device s (compute_device a) (capacity (chunk_list s ! cid)) = (r, s1)"
          by (cases "prepare_device s (compute_device a) (capacity (chunk_list s ! cid))") blast
        show ?thesis
        proof (cases r)
          case (Inl e)
          from access_elsewhere_error [OF \<open>ps p = Some a\<close> d len False p [unfolded Inl], of now]
            dict_prepare_device [of s "compute_device a" "capacity (chunk_list s ! cid)"] p
          show ?thesis by simp
        next
          case (Inr u)
          from access_elsewhere [OF \<open>ps p = Some a\<close> d len False p [unfolded Inr] ok, of now]
          show ?thesis by auto
        qed
      qed
      qed
    qed
  qed
qed

lemma dict_allocate:
  "dict_tensor_id_chunk_id (snd (allocate s extent tid)) = dict_tensor_id_chunk_id s"
  by (simp add: allocate_def Let_def split: option.splits)

lemma ps_id_allocate:
  "ps_id (snd (allocate s extent tid)) = ps_id s"
  by (simp add: allocate_def Let_def split: option.splits)

lemma dict_new_tensor:
  "dict_tensor_id_chunk_id (snd (new_tensor s shape tid)) =
     (case tid of None \<Rightarrow> dict_tensor_id_chunk_id s
      | Some t \<Rightarrow> (dict_tensor_id_chunk_id s)(t \<mapsto> snd (fst (new_tensor s shape tid))))"
proof (cases "allocate s (prod_list shape) tid")
  case (Pair r s1)
  obtain c dest where r: "r = (c, dest)" by (cases r)
  from dict_allocate [of s "prod_list shape" tid] Pair r show ?thesis
    by (cases tid) (simp_all add: new_tensor_def)
qed

lemma dict_new_tensor_other:
  "tid \<noteq> Some t \<Longrightarrow>
   dict_tensor_id_chunk_id (snd (new_tensor s shape tid)) t = dict_tensor_id_chunk_id s t"
  by (auto simp: dict_new_tensor split: option.splits)

lemma new_tensor_binds:
  assumes "new_tensor s shape (Some t) = ((dest, chunk_id), s')"
  shows "dict_tensor_id_chunk_id s' t = Some chunk_id"
  using dict_new_tensor [of s shape "Some t"] assms by simp

lemma dict_convert:
  assumes "t \<noteq> ps_id s + 1" and "t \<noteq> ps_id s + 2"
  shows "dict_tensor_id_chunk_id (fst (snd (convert_to_ps_param s p))) t
           = dict_tensor_id_chunk_id s t"
proof (cases "is_ps_param p")
  case True
  then show ?thesis by (simp add: convert_to_ps_param_def)
next
  case False
  let ?s2 = "s\<lparr>ps_id := ps_id s + 1 + 1\<rparr>"
  obtain v1 s3 where n1: "new_tensor ?s2 (param_shape p) (Some (ps_id s + 1)) = (v1, s3)"
    by (cases "new_tensor ?s2 (param_shape p) (Some (ps_id s + 1))") blast
  obtain v2 s4 where n2: "new_tensor s3 (param_shape p) (Some (ps_id s + 1 + 1)) = (v2, s4)"
    by (cases "new_tensor s3 (param_shape p) (Some (ps_id s + 1 + 1))") blast
  have d3: "dict_tensor_id_chunk_id s3 t = dict_tensor_id_chunk_id ?s2 t"
    using dict_new_tensor_other [of "Some (ps_id s + 1)" t ?s2 "param_shape p"] n1 assms(1)
    by simp
  have d4: "dict_tensor_id_chunk_id s4 t = dict_tensor_id_chunk_id s3 t"
    using dict_new_tensor_other [of "Some (ps_id s + 1 + 1)" t s3 "param_shape p"] n2 assms(2)
    by simp
  show ?thesis
    using False n1 n2 d3 d4 by (simp add: convert_to_ps_param_def generate_id_def Let_def)
qed

lemma dict_run_op:
  assumes "\<not> allocates s op t"
  shows "dict_tensor_id_chunk_id (run_op s op) t = dict_tensor_id_chunk_id s t"
proof (cases op)
  case (Access now p k)
  then show ?thesis by (simp add: dict_access)
next
  case (Release p k)
  then show ?thesis by (simp add: dict_release)
next
  case (ChunkMove i d)
  then show ?thesis by (simp add: dict_chunk_move)
next
  case (PrepareDevice d n)
  then show ?thesis by (simp add: dict_prepare_device)
next
  case (NewTensor shape tid)
  with assms show ?thesis by (simp add: dict_new_tensor_other)
next
  case (RegisterParam p)
  show ?thesis
  proof (cases "is_ps_param p")
    case True
    with RegisterParam show ?thesis by (simp add: register_param_def)
  next
    case False
    with RegisterParam assms have "t \<noteq> ps_id s + 1" "t \<noteq> ps_id s + 2"
      by auto
    from dict_convert [OF this, of p] RegisterParam False show ?thesis
      by (simp add: register_param_def)
  qed
qed

lemma dict_run_ops:
  "\<not> reallocated s ops t \<Longrightarrow>
   dict_tensor_id_chunk_id (run_ops s ops) t = dict_tensor_id_chunk_id s t"
proof (induction ops arbitrary: s)
  case Nil
  then show ?case by simp
next
  case (Cons op ops)
  then have a: "\<not> allocates s op t" and r: "\<not> reallocated (run_op s op) ops t"
    by simp_all
  from Cons.IH [OF r] dict_run_op [OF a] show ?case by simp
qed

lemma new_tensor_swap: "fst (new_tensor swap_client [4, 8] (Some 7)) = (0, 2)"
  by (simp add: new_tensor_def allocate_def swap_client_def used_extent_def upt_rec Let_def)







section \<open>Access to the gradient of a registered handle\<close>












section \<open>Bindings under the operations of the client\<close>

lemma ps_id_chunk_move: "ps_id (snd (chunk_move s i d)) = ps_id s"
  by (simp add: chunk_move_def move_def Let_def)

lemma ps_id_prepare_device: "ps_id (snd (prepare_device s t need)) = ps_id s"
proof (cases "make_room (chunk_list s)
                (need - available_mem (ps_manager s) (dev_type t) (dev_index t)) t")
  case (Inl e)
  then show ?thesis by (simp add: prepare_device_unfold)
next
  case (Inr moved_list)
  from prepare_device_moves [OF Inr, of "new_device_of t"] Inr show ?thesis
    by (auto simp: prepare_device_unfold)
qed

lemma ps_id_release: "ps_id (snd (release s p k)) = ps_id s"
  by (simp add: release_def Let_def split: option.splits)

lemma ps_id_access: "ps_id (snd (access s now p k)) = ps_id s"
proof (cases "ps p")
  case None
  then show ?thesis by (simp add: access_def)
next
  case (Some a)
  note a = this
  show ?thesis
  proof (cases "dict_tensor_id_chunk_id s (tensor_of a k)")
    case None
    with a show ?thesis by (simp add: access_def)
  next
    case (Some cid)
    note d = this
    show ?thesis
    proof (cases "cid < length (chunk_list s)")
      case False
      with a d show ?thesis by (simp add: access_def)
    next
      case True
      note len = this
      obtain r s1 where
        p: "prepare_device s (compute_device a) (capacity (chunk_list s ! cid)) = (r, s1)"
        by (cases "prepare_device s (compute_device a) (capacity (chunk_list s ! cid))") blast
      have p1: "ps_id s1 = ps_id s"
        using ps_id_prepare_device [of s "compute_device a" "capacity (chunk_list s ! cid)"] p
        by simp
      have m1: "ps_id (snd (chunk_move s1 cid (compute_device a))) = ps_id s"
        using p1 by (simp add: ps_id_chunk_move)
      show ?thesis
      proof (cases "k = DATA \<or> param_has_grad p")
        case False
        then have g: "k = GRAD" "\<not> param_has_grad p"
          by (cases k; simp)+
        note w = access_without_grad [OF a d len g, where now = now]
        show ?thesis
        proof (cases "device (chunk_list s ! cid) = compute_device a")
          case True
          with w(2) show ?thesis by simp
        next
          case False
          show ?thesis
          proof (cases r)
            case (Inl e)
            from w(3) [OF False p [unfolded Inl]] p1 show ?thesis by simp
          next
            case (Inr u)
            from w(4) [OF False p [unfolded Inr]] m1 show ?thesis by simp
          qed
        qed
      next
        case True
        note ok = this
        show ?thesis
        proof (cases "device (chunk_list s ! cid) = compute_device a")
          case True
          show ?thesis
            unfolding access_resident [OF a d len True ok] by simp
        next
          case False
          show ?thesis
          proof (cases r)
            case (Inl e)
            from access_elsewhere_error [OF a d len False p [unfolded Inl], of now] p1
            show ?thesis by simp
          next
            case (Inr u)
            from access_elsewhere [OF a d len False p [unfolded Inr] ok, of now] obtain s2 where
              "chunk_move s1 cid (compute_device a) = (Inr (), s2)"
              and "access s now p k =
                 (Inr (),
                  s2\<lparr>chunk_list := (chunk_list s2)[cid :=
                     (chunk_list s2 ! cid)\<lparr>timestamp := now,
                        tensor_info_list := set_status (tensor_of a k) COMPUTE
                          (tensor_info_list (chunk_list s2 ! cid))\<rparr>]\<rparr>)"
              by blast
            with m1 show ?thesis by simp
          qed
        qed
      qed
    qed
  qed
qed

lemma ps_id_new_tensor: "ps_id (snd (new_tensor s shape tid)) = ps_id s"
proof (cases "allocate s (prod_list shape) tid")
  case (Pair r s1)
  obtain c dest where r: "r = (c, dest)" by (cases r)
  from ps_id_allocate [of s "prod_list shape" tid] Pair r show ?thesis
    by (cases tid) (simp_all add: new_tensor_def)
qed

lemma ps_id_convert:
  "ps_id (fst (snd (convert_to_ps_param s p))) = (if is_ps_param p then ps_id s else ps_id s + 2)"
proof (cases "is_ps_param p")
  case True
  then show ?thesis by (simp add: convert_to_ps_param_def)
next
  case False
  let ?s2 = "s\<lparr>ps_id := ps_id s + 1 + 1\<rparr>"
  obtain v1 s3 where n1: "new_tensor ?s2 (param_shape p) (Some (ps_id s + 1)) = (v1, s3)"
    by (cases "new_tensor ?s2 (param_shape p) (Some (ps_id s + 1))") blast
  obtain v2 s4 where n2: "new_tensor s3 (param_shape p) (Some (ps_id s + 1 + 1)) = (v2, s4)"
    by (cases "new_tensor s3 (param_shape p) (Some (ps_id s + 1 + 1))") blast
  have p3: "ps_id s3 = ps_id s + 2"
    using ps_id_new_tensor [of ?s2 "param_shape p" "Some (ps_id s + 1)"] n1 by simp
  have p4: "ps_id s4 = ps_id s + 2"
    using ps_id_new_tensor [of s3 "param_shape p" "Some (ps_id s + 1 + 1)"] n2 p3 by simp
  show ?thesis
    using False n1 n2 p4 by (simp add: convert_to_ps_param_def generate_id_def Let_def)
qed

lemma generated_ids_step:
  assumes inv: "\<forall>t'. dict_tensor_id_chunk_id s t' \<noteq> None \<longrightarrow> t' \<le> ps_id s"
    and op: "\<not> is_new_tensor op"
  shows "(\<forall>t'. dict_tensor_id_chunk_id (run_op s op) t' \<noteq> None \<longrightarrow> t' \<le> ps_id (run_op s op))
     \<and> (\<forall>t'. dict_tensor_id_chunk_id s t' \<noteq> None \<longrightarrow>
            dict_tensor_id_chunk_id (run_op s op) t' = dict_tensor_id_chunk_id s t')"
proof (cases op)
  case (Access now p k)
  with inv show ?thesis by (simp add: dict_access ps_id_access)
next
  case (Release p k)
  with inv show ?thesis by (simp add: dict_release ps_id_release)
next
  case (ChunkMove i d)
  with inv show ?thesis by (simp add: dict_chunk_move ps_id_chunk_move)
next
  case (PrepareDevice d n)
  with inv show ?thesis by (simp add: dict_prepare_device ps_id_prepare_device)
next
  case (NewTensor shape tid)
  with op show ?thesis by simp
next
  case (RegisterParam p)
  show ?thesis
  proof (cases "is_ps_param p")
    case True
    with RegisterParam inv show ?thesis by (simp add: register_param_def)
  next
    case False
    let ?s' = "fst (snd (convert_to_ps_param s p))"
    have run: "run_op s op = ?s'"
      using RegisterParam False by (simp add: register_param_def)
    have id: "ps_id ?s' = ps_id s + 2"
      using False by (simp add: ps_id_convert)
    have other: "dict_tensor_id_chunk_id ?s' t' = dict_tensor_id_chunk_id s t'"
      if "t' \<noteq> ps_id s + 1" "t' \<noteq> ps_id s + 2" for t'
      using dict_convert [OF that] .
    have keep: "dict_tensor_id_chunk_id ?s' t' = dict_tensor_id_chunk_id s t'"
      if "dict_tensor_id_chunk_id s t' \<noteq> None" for t'
    proof -
      from inv that have "t' \<le> ps_id s" by blast
      then show ?thesis by (intro other) simp_all
    qed
    have bound: "t' \<le> ps_id ?s'" if "dict_tensor_id_chunk_id ?s' t' \<noteq> None" for t'
    proof (cases "t' = ps_id s + 1 \<or> t' = ps_id s + 2")
      case True
      with id show ?thesis by auto
    next
      case False
      with other [of t'] that have "dict_tensor_id_chunk_id s t' \<noteq> None" by simp
      with inv have "t' \<le> ps_id s" by blast
      with id show ?thesis by simp
    qed
    show ?thesis
      unfolding run using keep bound by blast
  qed
qed

lemma generated_ids_run:
  "\<forall>t'. dict_tensor_id_chunk_id s t' \<noteq> None \<longrightarrow> t' \<le> ps_id s \<Longrightarrow>
   list_all (\<lambda>op. \<not> is_new_tensor op) ops \<Longrightarrow>
   (\<forall>t'. dict_tensor_id_chunk_id s t' \<noteq> None \<longrightarrow>
      dict_tensor_id_chunk_id (run_ops s ops) t' = dict_tensor_id_chunk_id s t')"
proof (induction ops arbitrary: s)
  case Nil
  then show ?case by simp
next
  case (Cons op ops)
  from Cons.prems have op: "\<not> is_new_tensor op"
    and rest: "list_all (\<lambda>op. \<not> is_new_tensor op) ops"
    by simp_all
  note step = generated_ids_step [OF Cons.prems(1) op]
  from step have inv': "\<forall>t'. dict_tensor_id_chunk_id (run_op s op) t' \<noteq> None
      \<longrightarrow> t' \<le> ps_id (run_op s op)"
    by blast
  note ih = Cons.IH [OF inv' rest]
  show ?case
  proof (intro allI impI)
    fix t'
    assume b: "dict_tensor_id_chunk_id s t' \<noteq> None"
    with step have e: "dict_tensor_id_chunk_id (run_op s op) t' = dict_tensor_id_chunk_id s t'"
      by blast
    with b ih have "dict_tensor_id_chunk_id (run_ops (run_op s op) ops) t'
                     = dict_tensor_id_chunk_id (run_op s op) t'"
      by simp
    with e show "dict_tensor_id_chunk_id (run_ops s (op # ops)) t' = dict_tensor_id_chunk_id s t'"
      by simp
  qed
qed

text \<open>
  C9, amended. \<^verbatim>\<open>new_tensor\<close> binds the tensor id it is given to the chunk id it
  returns. \<^verbatim>\<open>access\<close>, \<^verbatim>\<open>release\<close>, \<^verbatim>\<open>chunk_move\<close> and \<^verbatim>\<open>prepare_device\<close>
  leave the whole table of bindings as it is, whether they return or raise; they may
  change the device of the owning chunk. \<^verbatim>\<open>new_tensor\<close> and \<^verbatim>\<open>register_param\<close>
  write only the bindings of the tensor ids they allocate, so along any sequence of
  operations of the client a binding stays what it was as long as no call of the
  sequence allocates that same id again. That holds in particular for every sequence
  of access, release, chunk_move, prepare_device and register_param on a client
  whose bound ids were all handed out by \<^verbatim>\<open>generate_id\<close> (none exceeds
  \<^verbatim>\<open>ps_id\<close>): every binding of that client is kept.
\<close>

theorem binding_stable:
  "(\<forall>dest chunk_id self'. new_tensor self shape (Some t) = ((dest, chunk_id), self') \<longrightarrow>
       dict_tensor_id_chunk_id self' t = Some chunk_id)
   \<and> dict_tensor_id_chunk_id (snd (access self now param access_type))
        = dict_tensor_id_chunk_id self
   \<and> dict_tensor_id_chunk_id (snd (release self param access_type))
        = dict_tensor_id_chunk_id self
   \<and> dict_tensor_id_chunk_id (snd (chunk_move self chunk_id dev))
        = dict_tensor_id_chunk_id self
   \<and> dict_tensor_id_chunk_id (snd (prepare_device self target_device need_size))
        = dict_tensor_id_chunk_id self
   \<and> (\<not> reallocated self ops t \<longrightarrow>
         dict_tensor_id_chunk_id (run_ops self ops) t = dict_tensor_id_chunk_id self t)
   \<and> ((\<forall>t'. dict_tensor_id_chunk_id self t' \<noteq> None \<longrightarrow> t' \<le> ps_id self)
        \<and> list_all (\<lambda>op. \<not> is_new_tensor op) ops \<longrightarrow>
       (\<forall>t'. dict_tensor_id_chunk_id self t' \<noteq> None \<longrightarrow>
          dict_tensor_id_chunk_id (run_ops self ops) t' = dict_tensor_id_chunk_id self t'))"
proof (intro conjI impI)
  show "\<forall>dest chunk_id self'. new_tensor self shape (Some t) = ((dest, chunk_id), self') \<longrightarrow>
       dict_tensor_id_chunk_id self' t = Some chunk_id"
    using new_tensor_binds by blast
  show "dict_tensor_id_chunk_id (snd (access self now param access_type))
        = dict_tensor_id_chunk_id self"
    by (rule dict_access)
  show "dict_tensor_id_chunk_id (snd (release self param access_type))
        = dict_tensor_id_chunk_id self"
    by (rule dict_release)
  show "dict_tensor_id_chunk_id (snd (chunk_move self chunk_id dev))
        = dict_tensor_id_chunk_id self"
    by (rule dict_chunk_move)
  show "dict_tensor_id_chunk_id (snd (prepare_device self target_device need_size))
        = dict_tensor_id_chunk_id self"
    by (rule dict_prepare_device)
next
  assume "\<not> reallocated self ops t"
  then show "dict_tensor_id_chunk_id (run_ops self ops) t = dict_tensor_id_chunk_id self t"
    by (rule dict_run_ops)
next
  assume a: "(\<forall>t'. dict_tensor_id_chunk_id self t' \<noteq> None \<longrightarrow> t' \<le> ps_id self)
        \<and> list_all (\<lambda>op. \<not> is_new_tensor op) ops"
  then show "\<forall>t'. dict_tensor_id_chunk_id self t' \<noteq> None \<longrightarrow>
          dict_tensor_id_chunk_id (run_ops self ops) t' = dict_tensor_id_chunk_id self t'"
    using generated_ids_run [of self ops] by blast
qed

lemma new_tensor_swap_again: "fst (new_tensor swap_client [4, 8] (Some 2)) = (0, 2)"
  by (simp add: new_tensor_def allocate_def swap_client_def used_extent_def upt_rec Let_def)

lemma new_tensor_rebinds:
  "dict_tensor_id_chunk_id swap_client 2 = Some 1
   \<and> dict_tensor_id_chunk_id (snd (new_tensor swap_client [4, 8] (Some 2))) 2 = Some 2
   \<and> dict_tensor_id_chunk_id (run_ops swap_client [NewTensor [4, 8] (Some 2)]) 2 = Some 2"
proof -
  obtain s' where n: "new_tensor swap_client [4, 8] (Some 2) = ((0, 2), s')"
    using new_tensor_swap_again by (cases "new_tensor swap_client [4, 8] (Some 2)") simp
  from new_tensor_binds [OF n] n show ?thesis
    by (simp add: swap_client_def)
qed

lemma generated_id_rebinds:
  "dict_tensor_id_chunk_id (run_ops swap_client [NewTensor [8, 8] (Some 4)]) 4 = Some 2"
  "dict_tensor_id_chunk_id
     (run_ops swap_client [NewTensor [8, 8] (Some 4), RegisterParam plain_param]) 4 = Some 3"
  by (simp_all add: register_param_def convert_to_ps_param_def is_ps_param_def generate_id_def
      new_tensor_def allocate_def used_extent_def add_def Let_def upt_rec
      swap_client_def plain_param_def cpu_device_def cuda0_device_def)

text \<open>
  C9, as the claim states it, fails: not every operation of the client preserves a
  binding. \<^verbatim>\<open>new_tensor\<close> writes the binding of the id it is given without looking
  whether that id is bound (lines 152 and 153): in the two-chunk client tensor 2 is
  bound to chunk 1, and after \<^verbatim>\<open>new_tensor\<close> with the id 2 it is bound to the new
  chunk 2. An id chosen by a caller can also meet \<^verbatim>\<open>generate_id\<close>: after
  \<^verbatim>\<open>new_tensor\<close> with the id 4, bound to chunk 2, registering a parameter generates
  the id 4 again and binds it to chunk 3.
\<close>

theorem new_tensor_rebinds_counterexample:
  "dict_tensor_id_chunk_id swap_client 2 = Some 1
   \<and> dict_tensor_id_chunk_id (run_ops swap_client [NewTensor [4, 8] (Some 2)]) 2 = Some 2
   \<and> ps_id swap_client = 3
   \<and> dict_tensor_id_chunk_id (run_ops swap_client [NewTensor [8, 8] (Some 4)]) 4 = Some 2
   \<and> dict_tensor_id_chunk_id
        (run_ops swap_client [NewTensor [8, 8] (Some 4), RegisterParam plain_param]) 4 = Some 3"
proof -
  have "ps_id swap_client = 3"
    by (simp add: swap_client_def)
  with new_tensor_rebinds generated_id_rebinds show ?thesis
    by blast
qed

text \<open>
  In the two-chunk client the tensors 0 to 3 are bound and \<^verbatim>\<open>ps_id\<close> is 3; tensor 2
  is bound to chunk 1. It stays bound to chunk 1 along a run that registers another
  parameter, accesses and releases the handle, moves chunk 1, prepares cuda:0 and
  allocates tensor 7 (bound to the new chunk 2), and along a run without
  \<^verbatim>\<open>new_tensor\<close> that registers two parameters.
\<close>

theorem binding_stable_witness:
  "fst (new_tensor swap_client [4, 8] (Some 7)) = (0, 2)
   \<and> dict_tensor_id_chunk_id (snd (new_tensor swap_client [4, 8] (Some 7))) 7 = Some 2
   \<and> dict_tensor_id_chunk_id swap_client 2 = Some 1
   \<and> \<not> reallocated swap_client
         [RegisterParam plain_param, Access 9 handle_param DATA, Release handle_param DATA,
          ChunkMove 1 cuda0_device, PrepareDevice cuda0_device 64, NewTensor [4, 8] (Some 7)] 2
   \<and> dict_tensor_id_chunk_id
        (run_ops swap_client
           [RegisterParam plain_param, Access 9 handle_param DATA, Release handle_param DATA,
            ChunkMove 1 cuda0_device, PrepareDevice cuda0_device 64, NewTensor [4, 8] (Some 7)]) 2
       = Some 1
   \<and> dom (dict_tensor_id_chunk_id swap_client) = {0, 1, 2, 3}
   \<and> ps_id swap_client = 3
   \<and> list_all (\<lambda>op. \<not> is_new_tensor op)
         [RegisterParam plain_param, Access 9 handle_param GRAD, Release handle_param DATA,
          ChunkMove 1 cuda0_device, PrepareDevice cuda0_device 64, RegisterParam plain_param]
   \<and> dict_tensor_id_chunk_id
        (run_ops swap_client
           [RegisterParam plain_param, Access 9 handle_param GRAD, Release handle_param DATA,
            ChunkMove 1 cuda0_device, PrepareDevice cuda0_device 64, RegisterParam plain_param]) 2
       = Some 1"
proof -
  let ?ops = "[RegisterParam plain_param, Access 9 handle_param DATA, Release handle_param DATA,
          ChunkMove 1 cuda0_device, PrepareDevice cuda0_device 64, NewTensor [4, 8] (Some 7)]"
  let ?ops' = "[RegisterParam plain_param, Access 9 handle_param GRAD, Release handle_param DATA,
          ChunkMove 1 cuda0_device, PrepareDevice cuda0_device 64, RegisterParam plain_param]"
  obtain s' where n: "new_tensor swap_client [4, 8] (Some 7) = ((0, 2), s')"
    using new_tensor_swap by (cases "new_tensor swap_client [4, 8] (Some 7)") simp
  have d: "dict_tensor_id_chunk_id swap_client 2 = Some 1"
    by (simp add: swap_client_def)
  have r: "\<not> reallocated swap_client ?ops 2"
    by (simp add: swap_client_def)
  have dm: "dom (dict_tensor_id_chunk_id swap_client) = {0, 1, 2, 3}"
    by (auto simp: swap_client_def)
  have ps: "ps_id swap_client = 3"
    by (simp add: swap_client_def)
  have inv: "\<forall>t'. dict_tensor_id_chunk_id swap_client t' \<noteq> None \<longrightarrow> t' \<le> ps_id swap_client"
  proof (intro allI impI)
    fix t'
    assume "dict_tensor_id_chunk_id swap_client t' \<noteq> None"
    then have "t' \<in> dom (dict_tensor_id_chunk_id swap_client)"
      by (simp add: dom_def)
    with dm ps show "t' \<le> ps_id swap_client"
      by auto
  qed
  have la: "list_all (\<lambda>op. \<not> is_new_tensor op) ?ops'"
    by simp
  have b: "dict_tensor_id_chunk_id s' 7 = Some 2"
    using binding_stable [where self = swap_client and shape = "[4, 8]" and t = 7] n by blast
  have c: "dict_tensor_id_chunk_id (run_ops swap_client ?ops) 2
             = dict_tensor_id_chunk_id swap_client 2"
    using binding_stable [where self = swap_client and ops = ?ops and t = 2] r by blast
  have e: "dict_tensor_id_chunk_id (run_ops swap_client ?ops') 2
             = dict_tensor_id_chunk_id swap_client 2"
    using binding_stable [where self = swap_client and ops = ?ops' and t = 2] inv la d by blast
  show ?thesis
    using n d r b c e dm ps la by simp
qed

end
